theory Spec2Isabelle
  imports Complex_Main "HOL-Library.Sublist" "HOL-Library.Word"
begin

section \<open>Strings (std::string operations used by PlottingTools.cxx)\<close>

text \<open>
  \<^verbatim>\<open>s.find(sub)\<close> returns the first position at which \<open>sub\<close> occurs in \<open>s\<close>, or
  \<^verbatim>\<open>string::npos\<close>, modelled as \<open>None\<close>.
\<close>

primrec str_find :: "string \<Rightarrow> string \<Rightarrow> nat option" where
  "str_find [] sub = (if sub = [] then Some 0 else None)"
| "str_find (c # cs) sub =
     (if prefix sub (c # cs) then Some 0 else map_option Suc (str_find cs sub))"

definition str_contains :: "string \<Rightarrow> string \<Rightarrow> bool" where
  "str_contains s sub = (str_find s sub \<noteq> None)"

text \<open>\<^verbatim>\<open>s.erase(s.find(sub), sub.length())\<close>, used only after \<open>find\<close> succeeded.\<close>

definition str_erase_first :: "string \<Rightarrow> string \<Rightarrow> string" where
  "str_erase_first s sub =
     (case str_find s sub of
        None \<Rightarrow> s
      | Some p \<Rightarrow> take p s @ drop (p + length sub) s)"

text \<open>\<^verbatim>\<open>s.replace(s.find(tok), tok.size(), val)\<close>, used only after \<open>find\<close> succeeded.\<close>

definition str_replace_first :: "string \<Rightarrow> string \<Rightarrow> string \<Rightarrow> string" where
  "str_replace_first s tok val =
     (case str_find s tok of
        None \<Rightarrow> s
      | Some p \<Rightarrow> take p s @ val @ drop (p + length tok) s)"

section \<open>Plot.h: the property model of a data series\<close>

text \<open>
  \<^verbatim>\<open>layout_t\<close>, \<^verbatim>\<open>Data::dataRange_t\<close>, \<^verbatim>\<open>Data::modify_t\<close>, \<^verbatim>\<open>Data::legend_t\<close> and the
  private members of \<^verbatim>\<open>Plot::Pad::Data\<close> and \<^verbatim>\<open>Plot::Pad::Ratio\<close>. An optional field is
  an \<open>option\<close>; \<^verbatim>\<open>double_t\<close> and \<^verbatim>\<open>float_t\<close> values are modelled as reals (only their
  presence and identity matter below); an \<^verbatim>\<open>int16_t\<close> is a 16-bit word, read by \<open>sint\<close>.
\<close>

record layout_t =
  layout_color :: "16 word option"
  layout_style :: "16 word option"
  layout_scale :: "real option"

record dataRange_t =
  range_min :: "real option"
  range_max :: "real option"

record modify_t =
  norm_mode :: "8 word option"
  scale_factor :: "real option"

record legend_t =
  legend_lable :: "string option"
  legend_identifier :: "8 word option"

record Data =
  mDefinesFrame :: bool
  mType :: string
  mName :: string
  mInputIdentifier :: string
  mDrawingOptions :: "string option"
  mDrawingOptionAlias :: "8 word option"
  mTextFormat :: "string option"
  mLegend :: legend_t
  mMarker :: layout_t
  mLine :: layout_t
  mFill :: layout_t
  mRangeX :: dataRange_t
  mRangeY :: dataRange_t
  mModify :: modify_t

record Ratio = Data +
  mDenomName :: string
  mDenomInputIdentifier :: string
  mIsCorrelated :: bool

text \<open>
  Modelled from the spec: \<^verbatim>\<open>Data::UnsetRangeY\<close> is declared in Plot.h but its body
  (Plot.cxx) is not part of the sources. Following the data model of the specification
  (optional X/Y display-range clamps, where unset means absent), it resets both bounds of
  the Y range to the unset state and touches nothing else.
\<close>

definition Data_UnsetRangeY :: "'a Data_scheme \<Rightarrow> 'a Data_scheme" where
  "Data_UnsetRangeY d = d\<lparr>mRangeY := \<lparr>range_min = None, range_max = None\<rparr>\<rparr>"

text \<open>
  Plot.h, lines 489 and 493: both forwarders of \<^verbatim>\<open>Ratio\<close> call \<^verbatim>\<open>Data::UnsetRangeY\<close>
  and cast the result back to \<^verbatim>\<open>Ratio&\<close>.
\<close>

definition Ratio_UnsetRangeX :: "Ratio \<Rightarrow> Ratio" where
  "Ratio_UnsetRangeX r = Data_UnsetRangeY r"

definition Ratio_UnsetRangeY :: "Ratio \<Rightarrow> Ratio" where
  "Ratio_UnsetRangeY r = Data_UnsetRangeY r"

section \<open>Backend objects\<close>

text \<open>
  A one-dimensional view of a ROOT histogram: \<open>fNcells\<close> cells (bins \<open>0\<close>, the underflow,
  to \<open>fNcells - 1\<close>), \<open>GetNbinsX\<close> regular bins along X between \<open>GetXmin\<close> and \<open>GetXmax\<close>,
  the axis lookup \<open>FindBin\<close> and the content and error of every cell. Doubles are modelled as reals: the code only compares
  them and stores zero.
\<close>

record TH1 =
  hName :: string
  hTitle :: string
  hClassName :: string
  hInheritsTH2 :: bool
  fNcells :: int
  GetNbinsX :: int
  GetXmin :: real
  GetXmax :: real
  FindBin :: "real \<Rightarrow> int"
  GetBinContent :: "int \<Rightarrow> real"
  GetBinError :: "int \<Rightarrow> real"

text \<open>\<^verbatim>\<open>TH1::SetBinContent\<close> and \<^verbatim>\<open>TH1::SetBinError\<close> ignore a cell outside the histogram.\<close>

definition SetBinContent :: "TH1 \<Rightarrow> int \<Rightarrow> real \<Rightarrow> TH1" where
  "SetBinContent h bin c =
     (if bin < 0 \<or> fNcells h \<le> bin then h
      else h\<lparr>GetBinContent := (GetBinContent h)(bin := c)\<rparr>)"

definition SetBinError :: "TH1 \<Rightarrow> int \<Rightarrow> real \<Rightarrow> TH1" where
  "SetBinError h bin e =
     (if bin < 0 \<or> fNcells h \<le> bin then h
      else h\<lparr>GetBinError := (GetBinError h)(bin := e)\<rparr>)"

text \<open>A graph is its sequence of points \<open>(fX[i], fY[i])\<close>.\<close>

record TGraph =
  gName :: string
  gTitle :: string
  gPoints :: "(real \<times> real) list"

definition GetN :: "TGraph \<Rightarrow> int" where
  "GetN g = int (length (gPoints g))"

text \<open>\<^verbatim>\<open>TGraph::RemovePoint(ipoint)\<close> does nothing for an index outside the graph.\<close>

definition RemovePoint :: "TGraph \<Rightarrow> int \<Rightarrow> TGraph" where
  "RemovePoint g ipoint =
     (if ipoint < 0 \<or> GetN g \<le> ipoint then g
      else g\<lparr>gPoints := take (nat ipoint) (gPoints g) @ drop (Suc (nat ipoint)) (gPoints g)\<rparr>)"

section \<open>PlottingTools.cxx: CutHistogram and CutGraph\<close>

definition ZeroBin :: "int \<Rightarrow> TH1 \<Rightarrow> TH1" where
  "ZeroBin i hist = SetBinError (SetBinContent hist i 0) i 0"

text \<open>
  Lines 760-775. Both \<^verbatim>\<open>for\<close> loops run over an interval of bin numbers; the first
  \<^verbatim>\<open>return\<close> leaves the function before the low side is looked at.
\<close>

definition CutHistogram :: "TH1 \<Rightarrow> real \<Rightarrow> real \<Rightarrow> TH1" where
  "CutHistogram hist cutoff cutoffLow =
     (if cutoff < -997 then hist
      else
        let cutoffBin = FindBin hist cutoff;
            hist1 = fold ZeroBin [cutoffBin..GetNbinsX hist] hist
        in if cutoffLow < -997 then hist1
           else
             let cutoffBinLow = FindBin hist1 cutoffLow
             in fold ZeroBin [1..cutoffBinLow] hist1)"

text \<open>
  Lines 785-816. The first loop counts, the other two remove that many points from the end
  and from the front.
\<close>

definition CountPoints :: "bool \<Rightarrow> bool \<Rightarrow> real \<Rightarrow> real \<Rightarrow> (real \<times> real) list \<Rightarrow> int \<times> int" where
  "CountPoints cutLow cutHigh cutoff cutoffLow pts =
     fold (\<lambda>p (pointsToRemoveLow, pointsToRemoveHigh).
             (if cutLow \<and> fst p < cutoffLow then pointsToRemoveLow + 1 else pointsToRemoveLow,
              if cutHigh \<and> fst p > cutoff then pointsToRemoveHigh + 1 else pointsToRemoveHigh))
          pts (0, 0)"

definition CutGraph :: "TGraph \<Rightarrow> real \<Rightarrow> real \<Rightarrow> TGraph" where
  "CutGraph graph cutoff cutoffLow =
     (let cutHigh = \<not> cutoff < -997;
          cutLow = \<not> cutoffLow < -997;
          (pointsToRemoveLow, pointsToRemoveHigh) =
             CountPoints cutLow cutHigh cutoff cutoffLow (gPoints graph);
          graph1 = ((\<lambda>g. RemovePoint g (GetN g - 1)) ^^ nat pointsToRemoveHigh) graph
      in ((\<lambda>g. RemovePoint g 0) ^^ nat pointsToRemoveLow) graph1)"

section \<open>The drawing backend as seen by PlottingTools.cxx\<close>

text \<open>
  Objects that can be found in \<^verbatim>\<open>availableData\<close> or referenced by a legend: histograms
  (\<^verbatim>\<open>TH2\<close> inherits from \<^verbatim>\<open>TH1\<close>), graphs, functions, and any other named object with
  its class name.
\<close>

record TF1 =
  fName :: string
  fFormula :: string
  fXmin :: real
  fXmax :: real

datatype TObject =
    TH1Obj TH1
  | TGraphObj TGraph
  | TF1Obj TF1
  | OtherObj string string

fun ObjName :: "TObject \<Rightarrow> string" where
  "ObjName (TH1Obj h) = hName h"
| "ObjName (TGraphObj g) = gName g"
| "ObjName (TF1Obj f) = fName f"
| "ObjName (OtherObj n c) = n"

fun ObjTitle :: "TObject \<Rightarrow> string" where
  "ObjTitle (TH1Obj h) = hTitle h"
| "ObjTitle (TGraphObj g) = gTitle g"
| "ObjTitle (TF1Obj f) = fFormula f"
| "ObjTitle (OtherObj n c) = []"

fun ClassName :: "TObject \<Rightarrow> string" where
  "ClassName (TH1Obj h) = hClassName h"
| "ClassName (TGraphObj g) = ''TGraph''"
| "ClassName (TF1Obj f) = ''TF1''"
| "ClassName (OtherObj n c) = c"

fun InheritsFromTF1 :: "TObject \<Rightarrow> bool" where
  "InheritsFromTF1 (TF1Obj f) = True"
| "InheritsFromTF1 obj = False"

text \<open>
  Attribute setters called on an object before it is drawn, in call order. \<open>kBlack\<close> is
  ROOT's colour number 1.
\<close>

datatype Call =
    SetLineWidth real
  | SetMarkerSize real
  | UseCurrentStyle
  | SetMarkerStyle int
  | SetMarkerColor int
  | SetLineColor int
  | SetFillColor int
  | SetFillStyle int
  | CenterTitleY
  | SetTickLengthX real
  | SetNdivisionsY int

definition kBlack :: int where
  "kBlack = 1"

record TBox =
  bX1 :: real
  bY1 :: real
  bX2 :: real
  bY2 :: real

record TLegend =
  lName :: string
  lX1 :: real
  lY1 :: real
  lX2 :: real
  lY2 :: real
  lHeader :: "string option"
  lEntries :: "(TObject \<times> string \<times> string) list"
  lNColumns :: int
  lMargin :: real
  lTextFont :: int
  lTextSize :: real
  lTextAlign :: int
  lEntrySeparation :: real
  lHeaderFont :: "(int \<times> real) option"
  lLineStyle :: int
  lLineColor :: int
  lLineWidth :: int
  lFillStyle :: int

record TPaveText =
  tName :: string
  tX1 :: real
  tY1 :: real
  tX2 :: real
  tY2 :: real
  tLines :: "string list"
  tBBoxX2 :: real
  tBorderSize :: int
  tLineStyle :: int
  tLineColor :: int
  tLineWidth :: int
  tMargin :: real
  tTextAlign :: int
  tTextFont :: int
  tTextSize :: real
  tFillStyle :: int

text \<open>
  What a pad holds: the draw directives issued on it, in order. A data object is drawn with
  the attribute calls made on it and its option string; \<^verbatim>\<open>TExec\<close> objects carry their name
  and command. What ROOT itself does with an option string when it paints is not part of
  this model.
\<close>

datatype Primitive =
    Drawn TObject "Call list" string
  | ExecPrim string string
  | BoxPrim string TBox
  | LegendPrim TLegend
  | TextPrim TPaveText

text \<open>
  The geometry of a pad as ROOT reports it: the pad's range in user coordinates, the range
  of the axis frame, and the pixel conversions.
\<close>

record PadGeom =
  GetX1 :: real
  GetX2 :: real
  GetY1 :: real
  GetY2 :: real
  GetUxmin :: real
  GetUxmax :: real
  GetUymin :: real
  GetUymax :: real
  XtoPixel :: "real \<Rightarrow> int"
  YtoPixel :: "real \<Rightarrow> int"

record TPad =
  padName :: string
  padNumber :: int
  padXLow :: real
  padYLow :: real
  padXUp :: real
  padYUp :: real
  padFillStyle :: int
  padTopMargin :: real
  padBottomMargin :: real
  padLeftMargin :: real
  padRightMargin :: real
  padGeom :: PadGeom
  padPrimitives :: "Primitive list"
  padView :: "(real list \<times> real \<times> real) option"
  padLogx :: bool
  padLogy :: bool
  padLogz :: bool
  padGridx :: bool
  padGridy :: bool

text \<open>
  The ambient style registers of \<^verbatim>\<open>gStyle\<close> (and \<^verbatim>\<open>TGaxis::fgMaxDigits\<close>), by name. A
  register is named after its setter and the axis argument of the call, as in
  \<open>LabelFontXY\<close> for \<^verbatim>\<open>SetLabelFont(font, "XY")\<close>; \<open>TickLengthX\<close> and \<open>TickLengthY\<close> are
  what \<^verbatim>\<open>GetTickLength("X")\<close> and \<^verbatim>\<open>GetTickLength("Y")\<close> read.
\<close>

type_synonym GStyle = "string \<Rightarrow> real"

text \<open>
  Operations of ROOT and constants of the framework that PlottingTools.cxx uses and that are
  defined elsewhere; they are parameters of the model. \<open>Divide\<close> is \<^verbatim>\<open>TH1::Divide\<close>
  and \<open>ScaleWidth\<close> is \<^verbatim>\<open>histo->Scale(1/histo->Integral(), "width")\<close>, each given by the
  contents and errors of the cells it leaves in the histogram; \<open>GetBoundingBox\<close> is the
  pixel size \<open>(width, height)\<close> of a \<^verbatim>\<open>TLatex\<close> line in font 43 at size 24, \<open>Update\<close> is the
  geometry of a pad after \<^verbatim>\<open>TPad::Update\<close>, \<open>PlaceBox\<close> is \<^verbatim>\<open>TPad::PlaceBox\<close> (the pad's
  primitives, the object \<open>o\<close>, the requested width and height and the current values of its
  two reference arguments; it returns its result and their new values), the five
  \<open>..._string\<close> functions are \<^verbatim>\<open>std::to_string\<close> of the statistics of a histogram,
  \<open>GetNRows\<close> is \<^verbatim>\<open>TLegend::GetNRows\<close>, \<open>NewPadGeom\<close> is the geometry of a pad just created
  at the given position, \<open>TextWidth\<close> is the width of the bounding box of a
  \<^verbatim>\<open>TText\<close> line, \<open>PaveX\<close> is the x coordinate of the bounding box of a \<^verbatim>\<open>TPaveText\<close>
  created at the given NDC x position, \<open>Date\<close> is \<^verbatim>\<open>TTimeStamp().GetDate()\<close>, and
  \<open>SlotPastLast\<close> is what \<^verbatim>\<open>TObjArray::operator[]\<close> yields for an index past the last
  entry of the array with the given entries: an object, or \<open>None\<close> for the null pointer.
\<close>

record Root =
  gNameGroupSeparator :: string
  Divide :: "TH1 \<Rightarrow> TH1 \<Rightarrow> (int \<Rightarrow> real) \<times> (int \<Rightarrow> real)"
  ScaleWidth :: "TH1 \<Rightarrow> (int \<Rightarrow> real) \<times> (int \<Rightarrow> real)"
  GetBoundingBox :: "string \<Rightarrow> nat \<times> nat"
  Update :: "TPad \<Rightarrow> PadGeom"
  PlaceBox :: "Primitive list \<Rightarrow> Primitive \<Rightarrow> real \<Rightarrow> real \<Rightarrow> real \<times> real \<Rightarrow> bool \<times> real \<times> real"
  GetEntries_string :: "TH1 \<Rightarrow> string"
  Integral_string :: "TH1 \<Rightarrow> string"
  GetMean_string :: "TH1 \<Rightarrow> string"
  GetMaximum_string :: "TH1 \<Rightarrow> string"
  GetMinimum_string :: "TH1 \<Rightarrow> string"
  GetNRows :: "TLegend \<Rightarrow> int"
  NewPadGeom :: "real \<Rightarrow> real \<Rightarrow> real \<Rightarrow> real \<Rightarrow> PadGeom"
  TextWidth :: "string \<Rightarrow> real"
  PaveX :: "TPad \<Rightarrow> real \<Rightarrow> real"
  Date :: int
  SlotPastLast :: "TObject list \<Rightarrow> nat \<Rightarrow> TObject option"

section \<open>The plot description read by PlottingTools.cxx\<close>

text \<open>
  PlottingTools.cxx reads the plot through accessors of \<^verbatim>\<open>Plot\<close>, \<^verbatim>\<open>Plot::Data\<close>,
  \<^verbatim>\<open>Plot::Histogram\<close>, \<^verbatim>\<open>Plot::Ratio\<close>, \<^verbatim>\<open>Plot::Graph\<close>, \<^verbatim>\<open>PlotStyle\<close> and the pad style
  whose classes are declared in headers that are not among the sources. Each record below
  has one field per accessor that is called, named after it; what an accessor returns is a
  parameter of the model.
\<close>

record PlotData =
  GetType :: string
  GetName :: string
  GetUniqueName :: string
  GetUniqueNameDenom :: string
  GetColor :: int
  GetStyle :: int
  GetDrawingOptions :: string
  GetLable :: string
  GetCutHigh :: real
  GetCutLow :: real

record LegendBox =
  lbTitle :: string
  lbNumColumns :: int
  lbX :: "real option"
  lbY :: "real option"
  lbIsUserCoord :: "bool option"
  lbBorderStyle :: int
  lbBorderColor :: int
  lbBorderSize :: int

record TextBox =
  tbText :: string
  tbX :: "real option"
  tbY :: "real option"
  tbIsUserCoord :: "bool option"
  tbBorderStyle :: int
  tbBorderColor :: int
  tbBorderSize :: int

datatype Box =
    LegendBoxB LegendBox
  | TextBoxB TextBox
  | OtherBox string

record Axis =
  IsRangeSet :: bool
  GetAxisRange :: "real \<times> real"
  IsTitleSet :: bool
  axGetTitle :: string

record Plot =
  plotGetUniqueName :: string
  GetNumRequiredPads :: int
  GetControlString :: "int \<Rightarrow> string"
  GetData :: "int \<Rightarrow> PlotData list"
  GetBoxes :: "int \<Rightarrow> Box list"
  GetAxis :: "int \<Rightarrow> string \<Rightarrow> Axis option"

record PadStyle =
  GetXLow :: real
  GetYLow :: real
  GetXUp :: real
  GetYUp :: real
  GetTopMargin :: real
  GetBottomMargin :: real
  GetLeftMargin :: real
  GetRightMargin :: real
  GetTitleOffsetX :: real
  GetTitleOffsetY :: real
  GetTitleOffsetZ :: real
  psGetTitle :: string

record PlotStyle =
  styleGetName :: string
  GetNPads :: int
  GetWidth :: int
  GetHeight :: int
  GetFillStyle :: int
  GetPadStyles :: "PadStyle list"
  GetPallette :: int
  GetTextFont :: int
  GetLableFont :: int
  GetTitleFont :: int
  GetTextSize :: real
  GetLableSize :: real
  GetTitleSize :: real
  GetMarkerSize :: real
  GetLineWidthThick :: real
  GetMarkerSizeThick :: real
  GetDefaultColor :: "int \<Rightarrow> int"
  GetDefaultMarker :: "int \<Rightarrow> int"
  GetDefault2DStyle :: string
  GetLinkedPads :: "string \<Rightarrow> int \<Rightarrow> int list"
  IsDrawTimestamps :: bool
  GetTimestampPositon :: "real \<times> real"

text \<open>
  Plot.h, lines 673-686: the position accessors of a box (the same for every box kind).
\<close>

definition GetXPosition :: "real option \<Rightarrow> real" where
  "GetXPosition x = (case x of Some v \<Rightarrow> v | None \<Rightarrow> 0)"

definition GetYPosition :: "real option \<Rightarrow> real" where
  "GetYPosition y = (case y of Some v \<Rightarrow> v | None \<Rightarrow> 0)"

definition IsUserCoordinates :: "bool option \<Rightarrow> bool" where
  "IsUserCoordinates u = (case u of Some b \<Rightarrow> b | None \<Rightarrow> False)"

definition IsAutoPlacement :: "real option \<Rightarrow> real option \<Rightarrow> bool" where
  "IsAutoPlacement x y = (x = None \<or> y = None)"

text \<open>Decimal rendering of an integer (\<^verbatim>\<open>std::to_string\<close>, \<^verbatim>\<open>operator<<\<close>).\<close>

fun string_of_nat :: "nat \<Rightarrow> string" where
  "string_of_nat n =
     (if n < 10 then [char_of (48 + n)]
      else string_of_nat (n div 10) @ [char_of (48 + n mod 10)])"

definition to_string :: "int \<Rightarrow> string" where
  "to_string i = (if i < 0 then ''-'' @ string_of_nat (nat (- i)) else string_of_nat (nat i))"

section \<open>PlottingTools.cxx: GetDataClone\<close>

text \<open>
  Lines 443-463, at the two types it is instantiated with. The result is the clone (or the
  null pointer) together with the lines written to \<^verbatim>\<open>cout\<close>.
\<close>

definition FindObject :: "TObject list \<Rightarrow> string \<Rightarrow> TObject option" where
  "FindObject availableData dataName = find (\<lambda>obj. ObjName obj = dataName) availableData"

definition GetDataClone_TH1 :: "string \<Rightarrow> TObject list \<Rightarrow> TH1 option \<times> string list" where
  "GetDataClone_TH1 dataName availableData =
     (case FindObject availableData dataName of
        None \<Rightarrow> (None, [''ERROR: '' @ dataName @ '' was not loaded.''])
      | Some obj \<Rightarrow>
          (case obj of
             TH1Obj h \<Rightarrow> (Some h, [])
           | _ \<Rightarrow> (None, [''ERROR: '' @ dataName @ '' is of type '' @ ClassName obj
                              @ '' instead of TH1.''])))"

definition GetDataClone_TGraph :: "string \<Rightarrow> TObject list \<Rightarrow> TGraph option \<times> string list" where
  "GetDataClone_TGraph dataName availableData =
     (case FindObject availableData dataName of
        None \<Rightarrow> (None, [''ERROR: '' @ dataName @ '' was not loaded.''])
      | Some obj \<Rightarrow>
          (case obj of
             TGraphObj g \<Rightarrow> (Some g, [])
           | _ \<Rightarrow> (None, [''ERROR: '' @ dataName @ '' is of type '' @ ClassName obj
                              @ '' instead of TGraph.''])))"

section \<open>PlottingTools.cxx: the data loop of GeneratePlot\<close>

text \<open>
  The variables that live across the iterations of the loop over \<^verbatim>\<open>plot.GetData(padID)\<close>
  (lines 90-268): the locals \<^verbatim>\<open>dataIndex\<close>, \<^verbatim>\<open>drawingOptions\<close>, \<^verbatim>\<open>lables\<close>,
  \<^verbatim>\<open>legendEntries\<close> and \<^verbatim>\<open>errorStyles\<close>, the primitives of the pad, its view, the lines
  written to \<^verbatim>\<open>cout\<close> and the registers of \<^verbatim>\<open>gStyle\<close>. The C++ \<^verbatim>\<open>int\<close>s are unbounded
  integers here; the loop adds small numbers to a counter that starts at zero.
\<close>

record LoopState =
  dataIndex :: int
  drawingOptions :: string
  lables :: "string list"
  legendEntries :: "TObject list"
  errorStyles :: "string list"
  primitives :: "Primitive list"
  view :: "(real list \<times> real \<times> real) option"
  cout :: "string list"
  gStyle :: GStyle

text \<open>Lines 93-97: the colour and marker style of a series, and the shifted index.\<close>

definition ResolveStyle :: "PlotStyle \<Rightarrow> PlotData \<Rightarrow> int \<Rightarrow> int \<times> int \<times> int" where
  "ResolveStyle plotStyle data index =
     (let color0 = (if GetColor data \<noteq> 0 then GetColor data else GetDefaultColor plotStyle index);
          style0 = (if GetStyle data \<noteq> 0 then GetStyle data else GetDefaultMarker plotStyle index);
          index1 = (if color0 < 0 then index + color0 else index);
          color1 = (if color0 < 0 then GetDefaultColor plotStyle index1 else color0);
          style1 = (if style0 < 0 then GetDefaultMarker plotStyle index1 else style0)
      in (index1, color1, style1))"

text \<open>The two \<^verbatim>\<open>TExec\<close> objects drawn around an object with error boxes.\<close>

definition ErrorBoxes :: "Primitive list" where
  "ErrorBoxes = [ExecPrim ''errorBoxesOn'' ''gStyle->SetErrorX(0.48)'',
                 ExecPrim ''errorBoxesOff'' ''gStyle->SetErrorX(0)'']"

text \<open>Lines 106-155: a histogram whose clone was found.\<close>

definition DrawHist ::
  "Root \<Rightarrow> PlotStyle \<Rightarrow> string \<Rightarrow> PlotData \<Rightarrow> int \<Rightarrow> int \<Rightarrow> TH1 \<Rightarrow> LoopState \<Rightarrow> LoopState" where
  "DrawHist ROOT plotStyle controlString data color style histo0 st =
     (let histo1 = CutHistogram histo0 (GetCutHigh data) (GetCutLow data);
          histo = (if str_contains controlString ''normalize''
                   then histo1\<lparr>GetBinContent := fst (ScaleWidth ROOT histo1),
                               GetBinError := snd (ScaleWidth ROOT histo1)\<rparr>
                   else histo1);
          calls0 = (if str_contains controlString ''thick''
                    then [SetLineWidth (GetLineWidthThick plotStyle),
                          SetMarkerSize (GetMarkerSizeThick plotStyle)]
                    else [])
                   @ [UseCurrentStyle, SetMarkerStyle style, SetMarkerColor color,
                      SetLineColor color];
          opts1 = (if hInheritsTH2 histo
                   then drawingOptions st @ '' '' @ GetDefault2DStyle plotStyle
                   else drawingOptions st);
          gStyle1 = (if hInheritsTH2 histo \<and> GetDefault2DStyle plotStyle = ''COLZ''
                     then (gStyle st)(''NumberContours'' := 256)
                     else gStyle st);
          opts2 = (if str_contains opts1 ''none'' then str_erase_first opts1 ''none'' else opts1);
          calls2 = (if str_contains opts1 ''none'' then calls0 @ [SetLineWidth 0] else calls0);
          opts3 = (if str_contains opts2 ''hist'' then opts2 @ '' HIST''
                   else if str_contains opts2 ''band'' then str_erase_first opts2 ''band'' @ '' E5''
                   else if str_contains opts2 ''boxes'' then str_erase_first opts2 ''boxes'' @ '' E2''
                   else opts2);
          calls3 = (if str_contains opts2 ''hist'' then calls2
                    else if str_contains opts2 ''band''
                    then calls2 @ [SetMarkerSize 0, SetFillColor color, SetFillStyle 1]
                    else if str_contains opts2 ''boxes'' then calls2 @ [SetFillStyle 0]
                    else calls2);
          execs = (if \<not> str_contains opts2 ''hist'' \<and> \<not> str_contains opts2 ''band''
                      \<and> str_contains opts2 ''boxes''
                   then ErrorBoxes else [])
      in st\<lparr>drawingOptions := opts3, gStyle := gStyle1,
            primitives := primitives st @ execs @ [Drawn (TH1Obj histo) calls3 opts3]\<rparr>)"

text \<open>
  Lines 163-218: a ratio whose numerator and denominator clones were found. A one-dimensional
  ratio met while \<^verbatim>\<open>dataIndex\<close> is zero first draws the axis of a clone named \<open>dummy\<close> and
  the function \<open>line\<close> with formula \<open>1\<close>, then increments \<^verbatim>\<open>dataIndex\<close> and resolves colour
  and style again.
\<close>

definition DrawRatio ::
  "Root \<Rightarrow> PlotStyle \<Rightarrow> PlotData \<Rightarrow> int \<Rightarrow> int \<Rightarrow> TH1 \<Rightarrow> TH1 \<Rightarrow> LoopState \<Rightarrow> LoopState" where
  "DrawRatio ROOT plotStyle data color style ratio0 temp st =
     (let divided = ratio0\<lparr>GetBinContent := fst (Divide ROOT ratio0 temp),
                            GetBinError := snd (Divide ROOT ratio0 temp)\<rparr>;
          ratio = (CutHistogram divided (GetCutHigh data) (GetCutLow data))\<lparr>hTitle := []\<rparr>;
          is2D = hInheritsTH2 ratio;
          first = (\<not> is2D \<and> dataIndex st = 0);
          calls0 = (if is2D then [UseCurrentStyle]
                    else [UseCurrentStyle, CenterTitleY, SetTickLengthX 0.06, SetNdivisionsY 305]);
          reference =
            (if first
             then [Drawn (TH1Obj (ratio\<lparr>hName := ''dummy''\<rparr>))
                     (calls0 @ [SetTickLengthX 0.06, SetNdivisionsY 305, SetLineColor 0]) ''AXIS'',
                   Drawn (TF1Obj \<lparr>fName = ''line'', fFormula = ''1'',
                                   fXmin = GetXmin ratio, fXmax = GetXmax ratio\<rparr>)
                     [SetLineColor kBlack, SetLineWidth 2] ''SAME'']
             else []);
          opts1 = (if is2D then drawingOptions st @ '' '' @ GetDefault2DStyle plotStyle
                   else if first then drawingOptions st @ '' SAME''
                   else drawingOptions st);
          index1 = (if first then dataIndex st + 1 else dataIndex st);
          color1 = (if first
                    then (if GetColor data \<noteq> 0 then GetColor data
                          else GetDefaultColor plotStyle index1)
                    else color);
          style1 = (if first
                    then (if GetStyle data \<noteq> 0 then GetStyle data
                          else GetDefaultMarker plotStyle index1)
                    else style);
          boxes = str_contains opts1 ''boxes'';
          opts2 = (if boxes then str_erase_first opts1 ''boxes'' @ '' E2'' else opts1);
          calls1 = calls0 @ (if boxes then [SetFillStyle 0] else [])
                   @ [SetMarkerStyle style1, SetMarkerColor color1, SetLineColor color1]
      in st\<lparr>dataIndex := index1, drawingOptions := opts2,
            view := (if is2D
                     then Some ([-0.5, -1, -3.610432, 100.5, 1.778151, 0.1470754], 49.5, 230)
                     else view st),
            primitives := primitives st @ reference @ (if boxes then ErrorBoxes else [])
                          @ [Drawn (TH1Obj ratio) calls1 opts2]\<rparr>)"

text \<open>Lines 226-253: a graph whose clone was found.\<close>

definition DrawGraph ::
  "PlotData \<Rightarrow> int \<Rightarrow> int \<Rightarrow> int \<Rightarrow> TGraph \<Rightarrow> LoopState \<Rightarrow> LoopState" where
  "DrawGraph data padID color style graph0 st =
     (let graph = CutGraph graph0 (GetCutHigh data) (GetCutLow data);
          calls0 = [UseCurrentStyle, SetMarkerStyle style, SetMarkerColor color, SetLineColor color]
                   @ (if padID = 2 then [CenterTitleY, SetTickLengthX 0.06, SetNdivisionsY 305]
                      else []);
          boxes = str_contains (drawingOptions st) ''boxes'';
          opts1 = (if boxes then ''E2 SAME'' else drawingOptions st);
          calls1 = calls0 @ (if boxes then [SetFillStyle 0] else []);
          opts2 = (if dataIndex st = 0 then opts1 @ '' AP'' else opts1)
      in st\<lparr>drawingOptions := opts2,
            primitives := primitives st @ (if boxes then ErrorBoxes else [])
                          @ [Drawn (TGraphObj graph) calls1 opts2]\<rparr>)"

text \<open>
  \<^verbatim>\<open>pad->GetListOfPrimitives()->Last()\<close> as an object; it is asked for right after a series
  has been drawn.
\<close>

fun PrimObject :: "Primitive \<Rightarrow> TObject" where
  "PrimObject (Drawn obj calls opt) = obj"
| "PrimObject (ExecPrim n c) = OtherObj n ''TExec''"
| "PrimObject (BoxPrim n b) = OtherObj n ''TBox''"
| "PrimObject (LegendPrim l) = OtherObj (lName l) ''TLegend''"
| "PrimObject (TextPrim t) = OtherObj (tName t) ''TPaveText''"

text \<open>Lines 260-267: the end of an iteration that drew its series.\<close>

definition FinishSeries :: "PlotData \<Rightarrow> LoopState \<Rightarrow> LoopState" where
  "FinishSeries data st =
     (let st1 = st\<lparr>dataIndex := dataIndex st + 1, drawingOptions := ''EP SAME''\<rparr>
      in if GetLable data \<noteq> []
         then st1\<lparr>lables := lables st @ [GetLable data],
                  legendEntries := legendEntries st @ [PrimObject (last (primitives st))],
                  errorStyles := errorStyles st @ [GetDrawingOptions data]\<rparr>
         else st1)"

text \<open>
  Lines 93-267: one iteration. A \<^verbatim>\<open>continue\<close> (a clone that was not found, or an unknown
  type) leaves the iteration with the index and the option string as they are at that
  point.
\<close>

definition DrawSeries ::
  "Root \<Rightarrow> PlotStyle \<Rightarrow> TObject list \<Rightarrow> string \<Rightarrow> int \<Rightarrow> LoopState \<Rightarrow> PlotData \<Rightarrow> LoopState" where
  "DrawSeries ROOT plotStyle availableData controlString padID st data =
     (let (index1, color, style) = ResolveStyle plotStyle data (dataIndex st);
          st1 = st\<lparr>dataIndex := index1,
                   drawingOptions := drawingOptions st @ GetDrawingOptions data\<rparr>
      in if GetType data = ''hist'' then
           (case GetDataClone_TH1 (GetUniqueName data) availableData of
              (None, msgs) \<Rightarrow> st1\<lparr>cout := cout st1 @ msgs\<rparr>
            | (Some histo, msgs) \<Rightarrow>
                FinishSeries data
                  (DrawHist ROOT plotStyle controlString data color style histo
                     (st1\<lparr>cout := cout st1 @ msgs\<rparr>)))
         else if GetType data = ''ratio'' then
           (let (ratio, msgs1) = GetDataClone_TH1 (GetUniqueName data) availableData;
                (temp, msgs2) = GetDataClone_TH1 (GetUniqueNameDenom data) availableData;
                st2 = st1\<lparr>cout := cout st1 @ msgs1 @ msgs2\<rparr>
            in case (ratio, temp) of
                 (Some r, Some t) \<Rightarrow>
                   FinishSeries data (DrawRatio ROOT plotStyle data color style r t st2)
               | _ \<Rightarrow> st2)
         else if GetType data = ''graph'' then
           (case GetDataClone_TGraph (GetUniqueName data) availableData of
              (None, msgs) \<Rightarrow> st1\<lparr>cout := cout st1 @ msgs\<rparr>
            | (Some graph, msgs) \<Rightarrow>
                FinishSeries data
                  (DrawGraph data padID color style graph (st1\<lparr>cout := cout st1 @ msgs\<rparr>)))
         else st1\<lparr>cout := cout st1
                      @ [''ERROR: no matching representation found for '' @ GetName data]\<rparr>)"

definition DataLoop ::
  "Root \<Rightarrow> PlotStyle \<Rightarrow> TObject list \<Rightarrow> string \<Rightarrow> int \<Rightarrow> LoopState \<Rightarrow> PlotData list \<Rightarrow> LoopState" where
  "DataLoop ROOT plotStyle availableData controlString padID st datas =
     foldl (DrawSeries ROOT plotStyle availableData controlString padID) st datas"

section \<open>PlottingTools.cxx: MakeLegend\<close>

text \<open>
  What the C++ leaves undefined or answers with an exception: the dereference of a null
  pointer, an index outside a \<^verbatim>\<open>std::vector\<close>, and the construction of a vector with a
  negative size.
\<close>

datatype Fault = NullPointer | OutOfRange | LengthError

text \<open>
  \<^verbatim>\<open>legendEntries[iLegend-1]\<close>, dereferenced. Past the entries that were added the array
  answers with whatever slot the backend hands out; the dereference of a null pointer is a
  fault.
\<close>

definition EntryAt :: "Root \<Rightarrow> TObject list \<Rightarrow> nat \<Rightarrow> Fault + TObject" where
  "EntryAt ROOT entries i =
     (if i < length entries then Inr (entries ! i)
      else (case SlotPastLast ROOT entries i of
              None \<Rightarrow> Inl NullPointer
            | Some entry \<Rightarrow> Inr entry))"

text \<open>
  Lines 492-533: one \<^verbatim>\<open>if\<close> per token. The entry is looked at only when the token occurs
  in the label; \<open>val\<close> is \<open>None\<close> when the entry is not of the class the token needs.
\<close>

definition ReplaceToken ::
  "Root \<Rightarrow> string \<Rightarrow> (TObject \<Rightarrow> string option) \<Rightarrow> TObject list \<Rightarrow> nat \<Rightarrow> string
     \<Rightarrow> Fault + string" where
  "ReplaceToken ROOT token val entries i legendTitle =
     (if str_contains legendTitle token then
        (case EntryAt ROOT entries i of
           Inl f \<Rightarrow> Inl f
         | Inr entry \<Rightarrow>
             (case val entry of
                None \<Rightarrow> Inr legendTitle
              | Some v \<Rightarrow> Inr (str_replace_first legendTitle token v)))
      else Inr legendTitle)"

definition NameBeforeSeparator :: "Root \<Rightarrow> TObject \<Rightarrow> string option" where
  "NameBeforeSeparator ROOT entry =
     (case str_find (ObjName entry) (gNameGroupSeparator ROOT) of
        None \<Rightarrow> Some (ObjName entry)
      | Some p \<Rightarrow> Some (take p (ObjName entry)))"

definition HistValue :: "(TH1 \<Rightarrow> string) \<Rightarrow> TObject \<Rightarrow> string option" where
  "HistValue f entry = (case entry of TH1Obj h \<Rightarrow> Some (f h) | _ \<Rightarrow> None)"

definition Tokens :: "Root \<Rightarrow> (string \<times> (TObject \<Rightarrow> string option)) list" where
  "Tokens ROOT =
     [(''<name>'', NameBeforeSeparator ROOT),
      (''<title>'', \<lambda>entry. Some (ObjTitle entry)),
      (''<entries>'', HistValue (GetEntries_string ROOT)),
      (''<integral>'', HistValue (Integral_string ROOT)),
      (''<mean>'', HistValue (GetMean_string ROOT)),
      (''<maximum>'', HistValue (GetMaximum_string ROOT)),
      (''<minimum>'', HistValue (GetMinimum_string ROOT))]"

fun SubstituteTokens ::
  "Root \<Rightarrow> (string \<times> (TObject \<Rightarrow> string option)) list \<Rightarrow> TObject list \<Rightarrow> nat \<Rightarrow> string
     \<Rightarrow> Fault + string" where
  "SubstituteTokens ROOT [] entries i legendTitle = Inr legendTitle"
| "SubstituteTokens ROOT ((token, val) # rest) entries i legendTitle =
     (case ReplaceToken ROOT token val entries i legendTitle of
        Inl f \<Rightarrow> Inl f
      | Inr t \<Rightarrow> SubstituteTokens ROOT rest entries i t)"

text \<open>
  The variables of the measuring loop (lines 483-551). \<open>measured\<close> is \<^verbatim>\<open>legendTitles\<close> as
  the loop leaves it: it iterates by reference, so every label is replaced by its
  substituted text.
\<close>

record MeasureState =
  iColumn :: nat
  iLegend :: nat
  legendWidthPixelPerColumn :: "nat list"
  legendHeightPixel :: real
  titleWidthPixel :: real
  measured :: "string list"

fun MeasureTitles ::
  "Root \<Rightarrow> LegendBox \<Rightarrow> TObject list \<Rightarrow> nat \<Rightarrow> MeasureState \<Rightarrow> string list \<Rightarrow> Fault + MeasureState" where
  "MeasureTitles ROOT legendBox entries n ms [] = Inr ms"
| "MeasureTitles ROOT legendBox entries n ms (legendTitle # rest) =
     (case SubstituteTokens ROOT (Tokens ROOT) entries (iLegend ms - 1) legendTitle of
        Inl f \<Rightarrow> Inl f
      | Inr title \<Rightarrow>
          (let width = fst (GetBoundingBox ROOT title);
               height = snd (GetBoundingBox ROOT title);
               ms1 = ms\<lparr>legendHeightPixel :=
                           (if real height > legendHeightPixel ms then real height
                            else legendHeightPixel ms),
                        measured := measured ms @ [title]\<rparr>
           in if lbTitle legendBox \<noteq> [] \<and> iLegend ms = n
              then MeasureTitles ROOT legendBox entries n (ms1\<lparr>titleWidthPixel := real width\<rparr>) rest
              else if length (legendWidthPixelPerColumn ms) \<le> iColumn ms then Inl OutOfRange
              else MeasureTitles ROOT legendBox entries n
                     (ms1\<lparr>legendWidthPixelPerColumn :=
                             (if width > legendWidthPixelPerColumn ms ! iColumn ms
                              then (legendWidthPixelPerColumn ms)[iColumn ms := width]
                              else legendWidthPixelPerColumn ms),
                           iColumn := (iColumn ms + 1) mod nat (lbNumColumns legendBox),
                           iLegend := iLegend ms + 1\<rparr>)
                     rest))"

text \<open>
  \<^verbatim>\<open>pad->GetListOfPrimitives()->Remove(&box)\<close> removes the very object that this call
  appended. Equal values earlier in the list are other objects, so the model removes the
  last occurrence.
\<close>

definition RemoveObject :: "Primitive \<Rightarrow> Primitive list \<Rightarrow> Primitive list" where
  "RemoveObject obj prims = rev (remove1 obj (rev prims))"

text \<open>Lines 598-601: every call overwrites \<^verbatim>\<open>foundPosition\<close> and the two coordinates.\<close>

definition SearchPosition ::
  "Root \<Rightarrow> Primitive list \<Rightarrow> real \<Rightarrow> real \<Rightarrow> bool \<times> real \<times> real" where
  "SearchPosition ROOT prims w h =
     fold (\<lambda>obj (foundPosition, lowerLeft). PlaceBox ROOT prims obj w h lowerLeft) prims
       (False, (0, 0))"

text \<open>
  Lines 577-633, the branch of an auto-placed box: the upper left corner, the lines written
  to \<^verbatim>\<open>cout\<close> and the pad as the branch leaves it.
\<close>

definition AutoPlace ::
  "Root \<Rightarrow> GStyle \<Rightarrow> TPad \<Rightarrow> real \<Rightarrow> real \<Rightarrow> (real \<times> real) \<times> string list \<times> TPad" where
  "AutoPlace ROOT gs pad totalWidthNDC totalHeightNDC =
     (let g = Update ROOT pad;
          fractionOfTickLenght = 0.9;
          marginX = fractionOfTickLenght * gs ''TickLengthY'' * (GetUxmax g - GetUxmin g)
                    / (GetX2 g - GetX1 g);
          marginY = fractionOfTickLenght * gs ''TickLengthX'' * (GetUymax g - GetUymin g)
                    / (GetY2 g - GetY1 g);
          marginsBottom = BoxPrim ''marginsBottom''
             \<lparr>bX1 = GetX1 g, bY1 = GetY1 g, bX2 = GetX2 g,
              bY2 = GetUymin g + gs ''TickLengthX'' * (GetUymax g - GetUymin g)\<rparr>;
          marginsTop = BoxPrim ''marginsTop''
             \<lparr>bX1 = GetX1 g, bY1 = GetUymax g - gs ''TickLengthX'' * (GetUymax g - GetUymin g),
              bX2 = GetX2 g, bY2 = GetY2 g\<rparr>;
          marginsLeft = BoxPrim ''marginsLeft''
             \<lparr>bX1 = GetX1 g, bY1 = GetY1 g,
              bX2 = GetUxmin g + gs ''TickLengthY'' * (GetUxmax g - GetUxmin g), bY2 = GetY2 g\<rparr>;
          marginsRight = BoxPrim ''marginsRight''
             \<lparr>bX1 = GetUxmax g - gs ''TickLengthY'' * (GetUxmax g - GetUxmin g), bY1 = GetY1 g,
              bX2 = GetX2 g, bY2 = GetY2 g\<rparr>;
          drawn = padPrimitives pad @ [marginsBottom, marginsTop, marginsLeft, marginsRight];
          found = SearchPosition ROOT drawn (totalWidthNDC + 2 * marginX)
                    (totalHeightNDC + 2 * marginY);
          foundPosition = fst found;
          lowerLeftX = fst (snd found);
          lowerLeftY = snd (snd found);
          pad1 = pad\<lparr>padGeom := g,
                     padPrimitives :=
                       RemoveObject marginsRight (RemoveObject marginsLeft
                         (RemoveObject marginsTop (RemoveObject marginsBottom drawn)))\<rparr>
      in if foundPosition
         then ((lowerLeftX + 2 * marginX, lowerLeftY + totalHeightNDC + 2 * marginY), [], pad1)
         else (((GetUxmin g - GetX1 g) / (GetX2 g - GetX1 g)
                  + (1 + 1 / fractionOfTickLenght) * marginX,
                (GetUymax g - GetY1 g) / (GetY2 g - GetY1 g)
                  - (1 + 1 / fractionOfTickLenght) * marginY),
               [''Warning: Could not find enough space to place legend properly.''],
               pad1))"

text \<open>Lines 572-641: where the upper left corner of the legend goes.\<close>

definition LegendPosition ::
  "Root \<Rightarrow> GStyle \<Rightarrow> LegendBox \<Rightarrow> TPad \<Rightarrow> real \<Rightarrow> real \<Rightarrow> (real \<times> real) \<times> string list \<times> TPad" where
  "LegendPosition ROOT gs legendBox pad totalWidthNDC totalHeightNDC =
     (if IsAutoPlacement (lbX legendBox) (lbY legendBox)
      then AutoPlace ROOT gs pad totalWidthNDC totalHeightNDC
      else if IsUserCoordinates (lbIsUserCoord legendBox)
      then (let g = Update ROOT pad
            in (((GetXPosition (lbX legendBox) - GetX1 g) / (GetX2 g - GetX1 g),
                 (GetYPosition (lbY legendBox) - GetY1 g) / (GetY2 g - GetY1 g)),
                [], pad\<lparr>padGeom := g\<rparr>))
      else ((GetXPosition (lbX legendBox), GetYPosition (lbY legendBox)), [], pad))"

text \<open>Lines 646-658: the draw style of an entry, and the loop that adds the entries.\<close>

definition EntryDrawStyle :: "TObject \<Rightarrow> string \<Rightarrow> string" where
  "EntryDrawStyle entry errorStyle =
     (if InheritsFromTF1 entry \<or> errorStyle = ''hist'' then ''l'' else ''ep'')"

fun AddEntries ::
  "TObject list \<Rightarrow> string list \<Rightarrow> string list \<Rightarrow> nat \<Rightarrow> Fault + (TObject \<times> string \<times> string) list" where
  "AddEntries [] titles styles i = Inr []"
| "AddEntries (entry # rest) titles styles i =
     (if i < length styles \<and> i < length titles
      then (case AddEntries rest titles styles (Suc i) of
              Inl f \<Rightarrow> Inl f
            | Inr es \<Rightarrow> Inr ((entry, titles ! i, EntryDrawStyle entry (styles ! i)) # es))
      else Inl OutOfRange)"

text \<open>
  Lines 466-679. The result is the legend, the pad as the call leaves it and the lines
  written to \<^verbatim>\<open>cout\<close>, or the fault the call runs into. The doubles are reals.
\<close>

definition TotalHeightNDC :: "int \<Rightarrow> real \<Rightarrow> int \<Rightarrow> real" where
  "TotalHeightNDC nEntries legendHeightNDC nColumns =
     (real_of_int nEntries + 0.5 * (real_of_int nEntries + 1)) * legendHeightNDC
     / real_of_int nColumns"

definition MakeLegend ::
  "Root \<Rightarrow> GStyle \<Rightarrow> LegendBox \<Rightarrow> TPad \<Rightarrow> TObject list \<Rightarrow> string list \<Rightarrow> string list
     \<Rightarrow> Fault + (TLegend \<times> TPad \<times> string list)" where
  "MakeLegend ROOT gs legendBox pad entries legendTitles0 styles =
     (let textSizePixel = 24;
          textFont = 43;
          nColumns = lbNumColumns legendBox;
          nEntries = int (length entries) + (if lbTitle legendBox \<noteq> [] then 1 else 0);
          padWidthPixel = XtoPixel (padGeom pad) (GetX2 (padGeom pad));
          padHeightPixel = YtoPixel (padGeom pad) (GetY1 (padGeom pad));
          legendTitles = legendTitles0 @ (if lbTitle legendBox \<noteq> [] then [lbTitle legendBox] else [])
      in if nColumns < 0 then Inl LengthError
         else
           (case MeasureTitles ROOT legendBox entries (length legendTitles)
                   \<lparr>iColumn = 0, iLegend = 1,
                    legendWidthPixelPerColumn = replicate (nat nColumns) 0,
                    legendHeightPixel = 0, titleWidthPixel = 0, measured = []\<rparr>
                   legendTitles of
              Inl f \<Rightarrow> Inl f
            | Inr ms \<Rightarrow>
                (let legendWidthPixel = real (sum_list (legendWidthPixelPerColumn ms));
                     markerWidthPixel = fst (GetBoundingBox ROOT ''AAA'');
                     legendWidthNDC = legendWidthPixel / real_of_int padWidthPixel;
                     legendHeightNDC = legendHeightPixel ms / real_of_int padHeightPixel;
                     markerWidthNDC = real markerWidthPixel / real_of_int padWidthPixel;
                     titleWidthNDC = titleWidthPixel ms / real_of_int padWidthPixel;
                     totalHeightNDC = TotalHeightNDC nEntries legendHeightNDC nColumns;
                     totalWidthNDC =
                       (if titleWidthPixel ms > legendWidthPixel
                        then 0.3333 * markerWidthNDC + titleWidthNDC
                        else (real_of_int nColumns + 0.3333) * markerWidthNDC + legendWidthNDC);
                     placed = LegendPosition ROOT gs legendBox pad totalWidthNDC totalHeightNDC;
                     upperLeftX = fst (fst placed);
                     upperLeftY = snd (fst placed)
                 in case AddEntries entries (measured ms) styles 0 of
                      Inl f \<Rightarrow> Inl f
                    | Inr es \<Rightarrow>
                        (let legend0 =
                               \<lparr>lName = [], lX1 = upperLeftX, lY1 = upperLeftY - totalHeightNDC,
                                lX2 = upperLeftX + totalWidthNDC, lY2 = upperLeftY,
                                lHeader = (if lbTitle legendBox \<noteq> [] then Some (lbTitle legendBox)
                                           else None),
                                lEntries = es, lNColumns = nColumns,
                                lMargin = (markerWidthNDC * real_of_int nColumns) / totalWidthNDC,
                                lTextFont = textFont, lTextSize = textSizePixel, lTextAlign = 10 + 1,
                                lEntrySeparation = 0,
                                lHeaderFont = (if lbTitle legendBox \<noteq> []
                                               then Some (textFont, textSizePixel) else None),
                                lLineStyle = lbBorderStyle legendBox,
                                lLineColor = lbBorderColor legendBox,
                                lLineWidth = lbBorderSize legendBox, lFillStyle = 0\<rparr>;
                             legend = legend0\<lparr>lEntrySeparation :=
                                1.0 - 0.5 * legendHeightNDC
                                      / (0.5 * (totalHeightNDC / real_of_int (GetNRows ROOT legend0)))\<rparr>
                         in Inr (legend, snd (snd placed), fst (snd placed))))))"

section \<open>PlottingTools.cxx: MakeText\<close>

text \<open>
  Lines 693-702: the \<^verbatim>\<open>do\<close> loop that splits the text at the delimiter \<^verbatim>\<open>" // "\<close>. Every
  round removes at least the four characters of a delimiter, so the loop ends.
\<close>

function SplitLines :: "string \<Rightarrow> string list" where
  "SplitLines text =
     (case str_find text '' // '' of
        None \<Rightarrow> [text]
      | Some pos \<Rightarrow> take pos text # SplitLines (drop (pos + 4) text))"
  by pat_completeness auto
termination
proof (relation "measure length")
  show "wf (measure length)" by simp
next
  fix s :: string and pos :: nat
  assume "str_find s '' // '' = Some pos"
  then have "s \<noteq> []" by (cases s) auto
  then show "(drop (pos + 4) s, s) \<in> measure length" by simp
qed

text \<open>Lines 682-749; \<^verbatim>\<open>gPad\<close> is the pad that is being filled.\<close>

definition MakeText :: "Root \<Rightarrow> TPad \<Rightarrow> TextBox \<Rightarrow> TPaveText" where
  "MakeText ROOT gPad textBox =
     (let textSizePixel = 24;
          textFont = 43;
          lines = SplitLines (tbText textBox);
          nLetters = fold (\<lambda>token n. if length token > n then length token else n) lines 0;
          nLines = length lines;
          g = padGeom gPad;
          textSizeNDC = textSizePixel / real_of_int (YtoPixel g (GetY1 g));
          textSizeNDCx = 0.6 * textSizePixel / real_of_int (XtoPixel g (GetX2 g));
          margin = 0.5 * textSizePixel;
          yWidth = (1.0 * real nLines + 0.5 * (real nLines - 1)) * textSizeNDC;
          xWidth = real nLetters * textSizeNDCx;
          g1 = Update ROOT gPad;
          upperLeftX = (if IsUserCoordinates (tbIsUserCoord textBox)
                        then (GetXPosition (tbX textBox) - GetX1 g1) / (GetX2 g1 - GetX1 g1)
                        else GetXPosition (tbX textBox));
          upperLeftY = (if IsUserCoordinates (tbIsUserCoord textBox)
                        then (GetYPosition (tbY textBox) - GetY1 g1) / (GetY2 g1 - GetY1 g1)
                        else GetYPosition (tbY textBox));
          boxExtent = fold (\<lambda>line e. if TextWidth ROOT line > e then TextWidth ROOT line else e)
                        lines 0;
          x2 = PaveX ROOT gPad upperLeftX + boxExtent + 2 * margin
      in \<lparr>tName = [], tX1 = upperLeftX, tY1 = upperLeftY - yWidth, tX2 = upperLeftX + xWidth,
          tY2 = upperLeftY, tLines = lines, tBBoxX2 = x2, tBorderSize = 1,
          tLineStyle = tbBorderStyle textBox, tLineColor = tbBorderColor textBox,
          tLineWidth = tbBorderSize textBox, tMargin = margin / x2, tTextAlign = 12,
          tTextFont = textFont, tTextSize = textSizePixel, tFillStyle = 0\<rparr>)"

section \<open>PlottingTools.cxx: the box loop of GeneratePlot\<close>

text \<open>
  Lines 297-332. \<open>OtherBox\<close> is a box whose type is neither \<^verbatim>\<open>"legend"\<close> nor \<^verbatim>\<open>"text"\<close>:
  the loop passes over it. The \<^verbatim>\<open>break\<close> of line 305 ends the loop.
\<close>

record BoxState =
  legendIndex :: int
  textIndex :: int
  boxPad :: TPad
  boxCout :: "string list"

fun BoxLoop ::
  "Root \<Rightarrow> GStyle \<Rightarrow> TObject list \<Rightarrow> string list \<Rightarrow> string list \<Rightarrow> BoxState \<Rightarrow> Box list
     \<Rightarrow> Fault + BoxState" where
  "BoxLoop ROOT gs entries titles styles bs [] = Inr bs"
| "BoxLoop ROOT gs entries titles styles bs (LegendBoxB legendBox # rest) =
     (if titles = [] then Inr bs
      else
        (case MakeLegend ROOT gs legendBox (boxPad bs) entries titles styles of
           Inl f \<Rightarrow> Inl f
         | Inr (legend, pad1, msgs) \<Rightarrow>
             BoxLoop ROOT gs entries titles styles
               (bs\<lparr>legendIndex := legendIndex bs + 1,
                   boxPad := pad1\<lparr>padPrimitives := padPrimitives pad1
                       @ [LegendPrim (legend\<lparr>lName := ''LegendBox_'' @ to_string (legendIndex bs)\<rparr>)]\<rparr>,
                   boxCout := boxCout bs @ msgs\<rparr>)
               rest))"
| "BoxLoop ROOT gs entries titles styles bs (TextBoxB textBox # rest) =
     BoxLoop ROOT gs entries titles styles
       (bs\<lparr>textIndex := textIndex bs + 1,
           boxPad := (boxPad bs)\<lparr>padPrimitives := padPrimitives (boxPad bs)
               @ [TextPrim ((MakeText ROOT (boxPad bs) textBox)
                              \<lparr>tName := ''TextBox_'' @ to_string (textIndex bs)\<rparr>)]\<rparr>\<rparr>)
       rest"
| "BoxLoop ROOT gs entries titles styles bs (OtherBox t # rest) =
     BoxLoop ROOT gs entries titles styles bs rest"

section \<open>PlottingTools.cxx: GeneratePlot\<close>

text \<open>Lines 69-88: the registers of \<^verbatim>\<open>gStyle\<close> set for every pad.\<close>

definition SetPadStyle :: "PlotStyle \<Rightarrow> TPad \<Rightarrow> GStyle \<Rightarrow> GStyle" where
  "SetPadStyle plotStyle pad gs =
     gs(''MaxDigits'' := 3,
        ''Palette'' := real_of_int (GetPallette plotStyle),
        ''TextFont'' := real_of_int (GetTextFont plotStyle),
        ''LabelFontXY'' := real_of_int (GetLableFont plotStyle),
        ''LabelFontZ'' := real_of_int (GetLableFont plotStyle),
        ''TitleFontXY'' := real_of_int (GetTitleFont plotStyle),
        ''TitleFontZ'' := real_of_int (GetTitleFont plotStyle),
        ''TextSize'' := GetTextSize plotStyle,
        ''LabelSizeXY'' := GetLableSize plotStyle,
        ''LabelSizeZ'' := GetLableSize plotStyle,
        ''TitleSizeXY'' := GetTitleSize plotStyle,
        ''TitleSizeZ'' := GetTitleSize plotStyle,
        ''TitleFont'' := real_of_int (GetTextFont plotStyle),
        ''TitleW'' := (GetX2 (padGeom pad) - padRightMargin pad)
                       - (GetX1 (padGeom pad) + padLeftMargin pad),
        ''TitleH'' := padTopMargin pad * 0.8,
        ''TitleAlign'' := 20 + 3,
        ''MarkerSize'' := GetMarkerSize plotStyle)"

text \<open>
  Lines 340-343: the first primitive that is a histogram, a graph or a function.
\<close>

fun IsAxisObject :: "Primitive \<Rightarrow> bool" where
  "IsAxisObject (Drawn (TH1Obj h) calls opt) = True"
| "IsAxisObject (Drawn (TGraphObj g) calls opt) = True"
| "IsAxisObject (Drawn (TF1Obj f) calls opt) = True"
| "IsAxisObject p = False"

fun AxisIsTH2 :: "Primitive \<Rightarrow> bool" where
  "AxisIsTH2 (Drawn (TH1Obj h) calls opt) = hInheritsTH2 h"
| "AxisIsTH2 p = False"

text \<open>
  Lines 350-408: what is set on the axes of the object that defines the frame. The three
  loops over the linked pads keep the range of the last linked pad that has one.
\<close>

record AxisSettings =
  axisTitleOffset :: "real \<times> real \<times> real"
  axisHistTitle :: string
  axisRangeX :: "(real \<times> real) option"
  axisRangeY :: "(real \<times> real) option"
  axisRangeZ :: "(real \<times> real) option"
  axisTitleX :: "string option"
  axisTitleY :: "string option"
  axisTitleZ :: "string option"
  axisPaletteX2NDC :: "real option"

definition LinkedRange :: "Plot \<Rightarrow> PlotStyle \<Rightarrow> string \<Rightarrow> int \<Rightarrow> (real \<times> real) option" where
  "LinkedRange plot plotStyle axis padID =
     fold (\<lambda>linked r.
             (case GetAxis plot linked axis of
                None \<Rightarrow> r
              | Some a \<Rightarrow> if IsRangeSet a then Some (GetAxisRange a) else r))
          (GetLinkedPads plotStyle axis padID) None"

definition AxisTitle :: "Plot \<Rightarrow> string \<Rightarrow> int \<Rightarrow> string option" where
  "AxisTitle plot axis padID =
     (case GetAxis plot padID axis of
        None \<Rightarrow> None
      | Some a \<Rightarrow> if IsTitleSet a then Some (axGetTitle a) else None)"

definition FinalizeAxes ::
  "Plot \<Rightarrow> PlotStyle \<Rightarrow> PadStyle \<Rightarrow> int \<Rightarrow> Primitive \<Rightarrow> AxisSettings" where
  "FinalizeAxes plot plotStyle padStyle padID axisObject =
     \<lparr>axisTitleOffset =
        (if AxisIsTH2 axisObject then (1.1, 1.1, 1.6)
         else (GetTitleOffsetX padStyle, GetTitleOffsetY padStyle, GetTitleOffsetZ padStyle)),
      axisHistTitle = psGetTitle padStyle,
      axisRangeX = LinkedRange plot plotStyle ''X'' padID,
      axisRangeY = LinkedRange plot plotStyle ''Y'' padID,
      axisRangeZ = LinkedRange plot plotStyle ''Z'' padID,
      axisTitleX = AxisTitle plot ''X'' padID,
      axisTitleY = AxisTitle plot ''Y'' padID,
      axisTitleZ = AxisTitle plot ''Z'' padID,
      axisPaletteX2NDC = (if AxisIsTH2 axisObject then Some 0.865 else None)\<rparr>"

text \<open>
  A pad of the canvas as one iteration of the loop over the pad styles leaves it, with the
  axis settings when the iteration reached them.
\<close>

record CanvasPad =
  cpPad :: TPad
  cpAxes :: "AxisSettings option"

record PadLoopState =
  padID :: int
  canvasPads :: "CanvasPad list"
  plCout :: "string list"
  plStyle :: GStyle

text \<open>
  Lines 45-414: one iteration. The two \<^verbatim>\<open>continue\<close> statements of lines 335 and 349 skip
  the increment of \<^verbatim>\<open>padID\<close>; a pad that holds boxes only has no axis object, and line 345
  dereferences the null pointer.
\<close>

definition RenderPad ::
  "Root \<Rightarrow> Plot \<Rightarrow> PlotStyle \<Rightarrow> TObject list \<Rightarrow> PadLoopState \<Rightarrow> PadStyle \<Rightarrow> Fault + PadLoopState" where
  "RenderPad ROOT plot plotStyle availableData st padStyle =
     (let controlString = GetControlString plot (padID st);
          pad0 = \<lparr>padName = ''Pad_'' @ to_string (padID st), padNumber = padID st,
                  padXLow = GetXLow padStyle, padYLow = GetYLow padStyle,
                  padXUp = GetXUp padStyle, padYUp = GetYUp padStyle,
                  padFillStyle = GetFillStyle plotStyle,
                  padTopMargin = GetTopMargin padStyle, padBottomMargin = GetBottomMargin padStyle,
                  padLeftMargin = GetLeftMargin padStyle, padRightMargin = GetRightMargin padStyle,
                  padGeom = NewPadGeom ROOT (GetXLow padStyle) (GetYLow padStyle)
                              (GetXUp padStyle) (GetYUp padStyle),
                  padPrimitives = [], padView = None, padLogx = False, padLogy = False,
                  padLogz = False, padGridx = False, padGridy = False\<rparr>;
          ls = DataLoop ROOT plotStyle availableData controlString (padID st)
                 \<lparr>dataIndex = 0, drawingOptions = [], lables = [], legendEntries = [],
                  errorStyles = [], primitives = [], view = None, cout = plCout st,
                  gStyle = SetPadStyle plotStyle pad0 (plStyle st)\<rparr>
                 (GetData plot (padID st));
          pad1 = pad0\<lparr>padPrimitives := primitives ls, padView := view ls,
                      padLogx := str_contains controlString ''logX'',
                      padLogy := str_contains controlString ''logY'',
                      padLogz := str_contains controlString ''logZ'',
                      padGridx := str_contains controlString ''gridX'',
                      padGridy := str_contains controlString ''gridY''\<rparr>
      in case BoxLoop ROOT (gStyle ls) (legendEntries ls) (lables ls) (errorStyles ls)
                \<lparr>legendIndex = 1, textIndex = 1, boxPad = pad1, boxCout = cout ls\<rparr>
                (GetBoxes plot (padID st)) of
           Inl f \<Rightarrow> Inl f
         | Inr bs \<Rightarrow>
             (if padPrimitives (boxPad bs) = []
              then Inr (st\<lparr>canvasPads := canvasPads st @ [\<lparr>cpPad = boxPad bs, cpAxes = None\<rparr>],
                          plCout := boxCout bs, plStyle := gStyle ls\<rparr>)
              else
                (case find IsAxisObject (padPrimitives (boxPad bs)) of
                   None \<Rightarrow> Inl NullPointer
                 | Some axisObject \<Rightarrow>
                     Inr (st\<lparr>padID := padID st + 1,
                             canvasPads := canvasPads st
                               @ [\<lparr>cpPad = (if AxisIsTH2 axisObject
                                            then (boxPad bs)\<lparr>padRightMargin := 0.12 + 0.06,
                                                             padTopMargin := 0.12 - 0.05,
                                                             padBottomMargin := 0.12 + 0.02\<rparr>
                                            else boxPad bs),
                                   cpAxes = Some (FinalizeAxes plot plotStyle padStyle (padID st)
                                                    axisObject)\<rparr>],
                             plCout := boxCout bs, plStyle := gStyle ls\<rparr>))))"

fun PadLoop ::
  "Root \<Rightarrow> Plot \<Rightarrow> PlotStyle \<Rightarrow> TObject list \<Rightarrow> PadLoopState \<Rightarrow> PadStyle list \<Rightarrow> Fault + PadLoopState" where
  "PadLoop ROOT plot plotStyle availableData st [] = Inr st"
| "PadLoop ROOT plot plotStyle availableData st (padStyle # rest) =
     (case RenderPad ROOT plot plotStyle availableData st padStyle of
        Inl f \<Rightarrow> Inl f
      | Inr st1 \<Rightarrow> PadLoop ROOT plot plotStyle availableData st1 rest)"

record TCanvas =
  cName :: string
  cWidth :: int
  cHeight :: int
  cFillStyle :: int
  cPads :: "CanvasPad list"
  cTimestamp :: "(real \<times> real \<times> string) option"

text \<open>
  What a call of \<^verbatim>\<open>GeneratePlot\<close> leaves behind: the canvas it returns (\<open>None\<close> is the null
  pointer), the lines it wrote to \<^verbatim>\<open>cout\<close> and the registers of \<^verbatim>\<open>gStyle\<close>.
\<close>

record PlotResult =
  resCanvas :: "TCanvas option"
  resCout :: "string list"
  resStyle :: GStyle

text \<open>Lines 25-440.\<close>

definition GeneratePlot ::
  "Root \<Rightarrow> GStyle \<Rightarrow> Plot \<Rightarrow> PlotStyle \<Rightarrow> TObject list \<Rightarrow> Fault + PlotResult" where
  "GeneratePlot ROOT gs plot plotStyle availableData =
     (if GetNPads plotStyle < GetNumRequiredPads plot
      then Inr \<lparr>resCanvas = None,
                resCout = [''ERROR: Number of pads in style '' @ [CHR 0x27] @ styleGetName plotStyle
                           @ [CHR 0x27] @ '' ('' @ to_string (GetNPads plotStyle)
                           @ '') does not match the number of pads needed for plotting ''
                           @ [CHR 0x27] @ plotGetUniqueName plot @ [CHR 0x27] @ '' (''
                           @ to_string (GetNumRequiredPads plot) @ '').''],
                resStyle = gs\<rparr>
      else
        (case PadLoop ROOT plot plotStyle availableData
                \<lparr>padID = 1, canvasPads = [], plCout = [], plStyle = gs(''OptStat'' := 0)\<rparr>
                (GetPadStyles plotStyle) of
           Inl f \<Rightarrow> Inl f
         | Inr st \<Rightarrow>
             Inr \<lparr>resCanvas =
                    Some \<lparr>cName = plotGetUniqueName plot, cWidth = GetWidth plotStyle + 4,
                          cHeight = GetHeight plotStyle + 28, cFillStyle = GetFillStyle plotStyle,
                          cPads = canvasPads st,
                          cTimestamp =
                            (if IsDrawTimestamps plotStyle
                             then Some (fst (GetTimestampPositon plotStyle),
                                        snd (GetTimestampPositon plotStyle),
                                        ''#color[16]{'' @ to_string (Date ROOT) @ ''}'')
                             else None)\<rparr>,
                  resCout = plCout st, resStyle = plStyle st\<rparr>))"

section \<open>Notions used in the statements\<close>

text \<open>
  A series is drawn when its type is one of the three the loop knows and
  \<^verbatim>\<open>GetDataClone\<close> finds every object it asks for; otherwise the iteration ends at a
  \<^verbatim>\<open>continue\<close>. A drawn ratio is one- or two-dimensional with its numerator.
\<close>

definition SeriesFound :: "TObject list \<Rightarrow> PlotData \<Rightarrow> bool" where
  "SeriesFound availableData data =
     (if GetType data = ''hist''
      then fst (GetDataClone_TH1 (GetUniqueName data) availableData) \<noteq> None
      else if GetType data = ''ratio''
      then fst (GetDataClone_TH1 (GetUniqueName data) availableData) \<noteq> None
           \<and> fst (GetDataClone_TH1 (GetUniqueNameDenom data) availableData) \<noteq> None
      else if GetType data = ''graph''
      then fst (GetDataClone_TGraph (GetUniqueName data) availableData) \<noteq> None
      else False)"

definition IsRatio :: "bool \<Rightarrow> TObject list \<Rightarrow> PlotData \<Rightarrow> bool" where
  "IsRatio twoDim availableData data =
     (GetType data = ''ratio'' \<and> SeriesFound availableData data
      \<and> (case fst (GetDataClone_TH1 (GetUniqueName data) availableData) of
            None \<Rightarrow> False
          | Some ratio \<Rightarrow> hInheritsTH2 ratio = twoDim))"

text \<open>
  The colours of a sequence of series when the first is resolved at index \<open>i\<close>, the next
  at \<open>i + 1\<close>, and so on: the explicit colour of the series, or the default colour at its
  index.
\<close>

fun ExpectedColors :: "PlotStyle \<Rightarrow> int \<Rightarrow> PlotData list \<Rightarrow> int list" where
  "ExpectedColors plotStyle i [] = []"
| "ExpectedColors plotStyle i (data # rest) =
     (if GetColor data \<noteq> 0 then GetColor data else GetDefaultColor plotStyle i)
     # ExpectedColors plotStyle (i + 1) rest"

text \<open>
  The marker colours given to the drawn objects, in draw order: one for every series
  (\<^verbatim>\<open>SetMarkerColor\<close> is called once on each), none for the reference objects of a ratio.
\<close>

fun CallMarkerColor :: "Call \<Rightarrow> int list" where
  "CallMarkerColor (SetMarkerColor c) = [c]"
| "CallMarkerColor call = []"

fun PrimMarkerColors :: "Primitive \<Rightarrow> int list" where
  "PrimMarkerColors (Drawn obj calls opt) = concat (map CallMarkerColor calls)"
| "PrimMarkerColors p = []"

definition MarkerColors :: "Primitive list \<Rightarrow> int list" where
  "MarkerColors prims = concat (map PrimMarkerColors prims)"

text \<open>The option strings the objects were drawn with, in draw order.\<close>

fun PrimOption :: "Primitive \<Rightarrow> string list" where
  "PrimOption (Drawn obj calls opt) = [opt]"
| "PrimOption p = []"

definition DrawOptions :: "Primitive list \<Rightarrow> string list" where
  "DrawOptions prims = concat (map PrimOption prims)"

text \<open>A function drawn on the pad.\<close>

fun IsFunctionPrim :: "Primitive \<Rightarrow> bool" where
  "IsFunctionPrim (Drawn (TF1Obj f) calls opt) = True"
| "IsFunctionPrim p = False"

text \<open>The kind of a box of the plot, and the kind of a primitive of the pad.\<close>

fun IsLegendBox :: "Box \<Rightarrow> bool" where
  "IsLegendBox (LegendBoxB b) = True"
| "IsLegendBox b = False"

fun IsTextBox :: "Box \<Rightarrow> bool" where
  "IsTextBox (TextBoxB b) = True"
| "IsTextBox b = False"

fun IsLegendPrim :: "Primitive \<Rightarrow> bool" where
  "IsLegendPrim (LegendPrim l) = True"
| "IsLegendPrim p = False"

fun IsTextPrim :: "Primitive \<Rightarrow> bool" where
  "IsTextPrim (TextPrim t) = True"
| "IsTextPrim p = False"

text \<open>A legend title in which none of the seven tokens of lines 492-533 occurs.\<close>

definition TokenFree :: "string \<Rightarrow> bool" where
  "TokenFree s = (\<not> str_contains s ''<name>'' \<and> \<not> str_contains s ''<title>''
      \<and> \<not> str_contains s ''<entries>'' \<and> \<not> str_contains s ''<integral>''
      \<and> \<not> str_contains s ''<mean>'' \<and> \<not> str_contains s ''<maximum>''
      \<and> \<not> str_contains s ''<minimum>'')"

text \<open>
  The title of a legend box is the last label of the measuring loop, where
  \<^verbatim>\<open>iLegend - 1\<close> is the number of entries: a token in it is replaced from the slot past
  the last entry (lines 492-533). The title resolves when it holds no token, or when that
  slot is not the null pointer.
\<close>

definition TitleResolves :: "Root \<Rightarrow> LegendBox \<Rightarrow> TObject list \<Rightarrow> bool" where
  "TitleResolves ROOT legendBox entries =
     (TokenFree (lbTitle legendBox) \<or> SlotPastLast ROOT entries (length entries) \<noteq> None)"

text \<open>
  The collision search of lines 579-601 for a legend of width \<open>w\<close> and height \<open>h\<close> (in
  NDC): the two margins, the four temporary rectangles that keep the legend off the axis
  ticks, and the search over the primitives of the pad followed by these four, for a box
  that is two margins wider and higher than the legend. The result is what the last call
  of \<^verbatim>\<open>PlaceBox\<close> returns: whether it found a position, and the lower left corner.
\<close>

definition MarginX :: "GStyle \<Rightarrow> PadGeom \<Rightarrow> real" where
  "MarginX gs g = 0.9 * gs ''TickLengthY'' * (GetUxmax g - GetUxmin g) / (GetX2 g - GetX1 g)"

definition MarginY :: "GStyle \<Rightarrow> PadGeom \<Rightarrow> real" where
  "MarginY gs g = 0.9 * gs ''TickLengthX'' * (GetUymax g - GetUymin g) / (GetY2 g - GetY1 g)"

definition MarginBoxes :: "GStyle \<Rightarrow> PadGeom \<Rightarrow> Primitive list" where
  "MarginBoxes gs g =
     [BoxPrim ''marginsBottom''
        \<lparr>bX1 = GetX1 g, bY1 = GetY1 g, bX2 = GetX2 g,
         bY2 = GetUymin g + gs ''TickLengthX'' * (GetUymax g - GetUymin g)\<rparr>,
      BoxPrim ''marginsTop''
        \<lparr>bX1 = GetX1 g, bY1 = GetUymax g - gs ''TickLengthX'' * (GetUymax g - GetUymin g),
         bX2 = GetX2 g, bY2 = GetY2 g\<rparr>,
      BoxPrim ''marginsLeft''
        \<lparr>bX1 = GetX1 g, bY1 = GetY1 g,
         bX2 = GetUxmin g + gs ''TickLengthY'' * (GetUxmax g - GetUxmin g), bY2 = GetY2 g\<rparr>,
      BoxPrim ''marginsRight''
        \<lparr>bX1 = GetUxmax g - gs ''TickLengthY'' * (GetUxmax g - GetUxmin g), bY1 = GetY1 g,
         bX2 = GetX2 g, bY2 = GetY2 g\<rparr>]"

definition LegendSearch :: "Root \<Rightarrow> GStyle \<Rightarrow> TPad \<Rightarrow> real \<Rightarrow> real \<Rightarrow> bool \<times> real \<times> real" where
  "LegendSearch ROOT gs pad w h =
     (let g = Update ROOT pad
      in SearchPosition ROOT (padPrimitives pad @ MarginBoxes gs g)
           (w + 2 * MarginX gs g) (h + 2 * MarginY gs g))"

text \<open>
  The fallback position in the words of the specification: the upper left corner of the
  axis frame in normalised coordinates, moved inwards by the margin (90 percent of a tick
  length) plus one tick length.
\<close>

definition FallbackCorner :: "GStyle \<Rightarrow> PadGeom \<Rightarrow> real \<times> real" where
  "FallbackCorner gs g =
     (let tickX = gs ''TickLengthY'' * (GetUxmax g - GetUxmin g) / (GetX2 g - GetX1 g);
          tickY = gs ''TickLengthX'' * (GetUymax g - GetUymin g) / (GetY2 g - GetY1 g);
          marginX = 0.9 * tickX;
          marginY = 0.9 * tickY
      in ((GetUxmin g - GetX1 g) / (GetX2 g - GetX1 g) + (marginX + tickX),
          (GetUymax g - GetY1 g) / (GetY2 g - GetY1 g) - (marginY + tickY)))"

section \<open>Concrete inputs\<close>

text \<open>A graph with three points, and a histogram with three regular bins on \<open>[0, 3)\<close>.\<close>

definition exGraph :: TGraph where
  "exGraph = \<lparr>gName = ''g'', gTitle = [], gPoints = [(0, 1), (3, 2), (10, 3)]\<rparr>"

definition exHist :: TH1 where
  "exHist = \<lparr>hName = ''h'', hTitle = [], hClassName = ''TH1D'', hInheritsTH2 = False,
             fNcells = 5, GetNbinsX = 3, GetXmin = 0, GetXmax = 3,
             FindBin = (\<lambda>x. if x < 0 then 0 else if x < 1 then 1 else if x < 2 then 2
                             else if x < 3 then 3 else 4),
             GetBinContent = (\<lambda>i. if 1 \<le> i \<and> i \<le> 3 then 5 else 0),
             GetBinError = (\<lambda>i. if 1 \<le> i \<and> i \<le> 3 then 2 else 0)\<rparr>"

text \<open>
  A backend in which every text line is 20 pixels high and 10 pixels wide per character,
  a pad of 800 by 600 pixels whose axis frame spans \<open>[0.1, 0.9]\<close> in both directions, in
  which \<^verbatim>\<open>PlaceBox\<close> never finds a position and the slot past the last entry of an array
  is the null pointer.
\<close>

definition exGeom :: PadGeom where
  "exGeom = \<lparr>GetX1 = 0, GetX2 = 1, GetY1 = 0, GetY2 = 1,
             GetUxmin = 0.1, GetUxmax = 0.9, GetUymin = 0.1, GetUymax = 0.9,
             XtoPixel = (\<lambda>x. 800), YtoPixel = (\<lambda>y. 600)\<rparr>"

definition exRoot :: Root where
  "exRoot = \<lparr>gNameGroupSeparator = ''_IN_'',
             Divide = (\<lambda>a b. (GetBinContent a, GetBinError a)),
             ScaleWidth = (\<lambda>a. (GetBinContent a, GetBinError a)),
             GetBoundingBox = (\<lambda>s. (10 * length s, 20)),
             Update = padGeom,
             PlaceBox = (\<lambda>prims obj w h xy. (False, xy)),
             GetEntries_string = (\<lambda>h. ''0''),
             Integral_string = (\<lambda>h. ''0''),
             GetMean_string = (\<lambda>h. ''0''),
             GetMaximum_string = (\<lambda>h. ''0''),
             GetMinimum_string = (\<lambda>h. ''0''),
             GetNRows = (\<lambda>l. 1),
             NewPadGeom = (\<lambda>xlow ylow xup yup. exGeom),
             TextWidth = (\<lambda>s. 10 * real (length s)),
             PaveX = (\<lambda>pad x. 0),
             Date = 20200101,
             SlotPastLast = (\<lambda>entries i. None)\<rparr>"

text \<open>
  Two more backends. In the first \<^verbatim>\<open>PlaceBox\<close> finds the position \<open>(0.2, 0.3)\<close> next to
  every drawn object but none next to a rectangle, so that the last call of the search,
  on \<open>marginsRight\<close>, fails. In the second it finds that position on every call.
\<close>

definition exRootLast :: Root where
  "exRootLast = exRoot\<lparr>PlaceBox := (\<lambda>prims obj w h xy.
       case obj of BoxPrim name box \<Rightarrow> (False, xy) | _ \<Rightarrow> (True, (0.2, 0.3)))\<rparr>"

definition exRootFree :: Root where
  "exRootFree = exRoot\<lparr>PlaceBox := (\<lambda>prims obj w h xy. (True, (0.2, 0.3)))\<rparr>"

text \<open>
  A style with one pad; the default colours and markers are cyclic lists of length three
  (ROOT's \<open>kRed\<close>, \<open>kBlue\<close> and \<open>kGreen\<close>).
\<close>

definition exStyle :: PlotStyle where
  "exStyle = \<lparr>styleGetName = ''default'', GetNPads = 1, GetWidth = 800, GetHeight = 600,
              GetFillStyle = 0,
              GetPadStyles = [\<lparr>GetXLow = 0, GetYLow = 0, GetXUp = 1, GetYUp = 1,
                               GetTopMargin = 0.1, GetBottomMargin = 0.1, GetLeftMargin = 0.1,
                               GetRightMargin = 0.1, GetTitleOffsetX = 1, GetTitleOffsetY = 1,
                               GetTitleOffsetZ = 1, psGetTitle = []\<rparr>],
              GetPallette = 1, GetTextFont = 43, GetLableFont = 43, GetTitleFont = 43,
              GetTextSize = 24, GetLableSize = 24, GetTitleSize = 24, GetMarkerSize = 1,
              GetLineWidthThick = 2, GetMarkerSizeThick = 2,
              GetDefaultColor = (\<lambda>i. [632, 600, 416] ! nat (i mod 3)),
              GetDefaultMarker = (\<lambda>i. [20, 21, 22] ! nat (i mod 3)),
              GetDefault2DStyle = ''COLZ'',
              GetLinkedPads = (\<lambda>axis padID. [padID]),
              IsDrawTimestamps = False, GetTimestampPositon = (0, 0)\<rparr>"

text \<open>
  A series of the given type, name and colour, with both cuts disabled, labelled by its
  name; and the pool of loaded objects: the histograms \<open>A\<close>, \<open>B\<close>, \<open>C\<close> and \<open>den\<close> and the
  graph \<open>G\<close>.
\<close>

definition exData :: "string \<Rightarrow> string \<Rightarrow> int \<Rightarrow> PlotData" where
  "exData type name col = \<lparr>GetType = type, GetName = name, GetUniqueName = name,
       GetUniqueNameDenom = ''den'', GetColor = col, GetStyle = 0, GetDrawingOptions = [],
       GetLable = name, GetCutHigh = -999, GetCutLow = -999\<rparr>"

definition exAvail :: "TObject list" where
  "exAvail = [TH1Obj (exHist\<lparr>hName := ''A''\<rparr>), TH1Obj (exHist\<lparr>hName := ''B''\<rparr>),
              TH1Obj (exHist\<lparr>hName := ''C''\<rparr>), TH1Obj (exHist\<lparr>hName := ''den''\<rparr>),
              TGraphObj (exGraph\<lparr>gName := ''G''\<rparr>)]"

text \<open>The histogram \<open>A\<close> as a labelled series with the drawing option \<open>hist C\<close>.\<close>

definition exDataHistC :: PlotData where
  "exDataHistC = (exData ''hist'' ''A'' 0)\<lparr>GetDrawingOptions := ''hist C''\<rparr>"

text \<open>The pool of loaded objects with a two-dimensional histogram \<open>A2\<close> added.\<close>

definition exAvail2 :: "TObject list" where
  "exAvail2 = TH1Obj (exHist\<lparr>hName := ''A2'', hInheritsTH2 := True\<rparr>) # exAvail"

text \<open>The data loop starts every pad in this state (lines 49-51 and 90-91).\<close>

definition exLoopState :: LoopState where
  "exLoopState = \<lparr>dataIndex = 0, drawingOptions = [], lables = [], legendEntries = [],
                  errorStyles = [], primitives = [], view = None, cout = [],
                  gStyle = (\<lambda>r. 0)\<rparr>"

text \<open>A plot that needs two pads.\<close>

definition exPlot2 :: Plot where
  "exPlot2 = \<lparr>plotGetUniqueName = ''P'', GetNumRequiredPads = 2,
              GetControlString = (\<lambda>padID. []),
              GetData = (\<lambda>padID. []), GetBoxes = (\<lambda>padID. []),
              GetAxis = (\<lambda>padID axis. None)\<rparr>"

text \<open>
  An auto-placed legend box with one column and no title, a pad that holds one histogram,
  and three entries: a histogram drawn with option \<open>hist\<close>, a function, and a histogram
  drawn with option \<open>hist C\<close>.
\<close>

definition exLegendBox :: LegendBox where
  "exLegendBox = \<lparr>lbTitle = [], lbNumColumns = 1, lbX = None, lbY = None,
                  lbIsUserCoord = None, lbBorderStyle = 1, lbBorderColor = 1, lbBorderSize = 1\<rparr>"

definition exPad :: TPad where
  "exPad = \<lparr>padName = ''Pad_1'', padNumber = 1, padXLow = 0, padYLow = 0, padXUp = 1,
            padYUp = 1, padFillStyle = 0, padTopMargin = 0.1, padBottomMargin = 0.1,
            padLeftMargin = 0.1, padRightMargin = 0.1, padGeom = exGeom,
            padPrimitives = [Drawn (TH1Obj exHist) [] ''HIST''], padView = None,
            padLogx = False, padLogy = False, padLogz = False, padGridx = False,
            padGridy = False\<rparr>"

definition exEntries :: "TObject list" where
  "exEntries = [TH1Obj (exHist\<lparr>hName := ''A''\<rparr>),
                TF1Obj \<lparr>fName = ''f'', fFormula = ''x'', fXmin = 0, fXmax = 1\<rparr>,
                TH1Obj (exHist\<lparr>hName := ''B''\<rparr>)]"

definition exTitles :: "string list" where
  "exTitles = [''A'', ''fit'', ''B'']"

definition exStyles :: "string list" where
  "exStyles = [''hist'', [], ''hist C'']"

section \<open>Ratio::UnsetRangeX\<close>

text \<open>
  Claim C10. For every Ratio entity, \<^verbatim>\<open>UnsetRangeX\<close> has exactly the effect of
  \<^verbatim>\<open>UnsetRangeY\<close>: the X display range keeps its minimum and maximum, and the Y display
  range is cleared.
\<close>

theorem Ratio_UnsetRangeX_is_UnsetRangeY:
  "Ratio_UnsetRangeX r = Ratio_UnsetRangeY r
   \<and> mRangeX (Ratio_UnsetRangeX r) = mRangeX r
   \<and> mRangeY (Ratio_UnsetRangeX r) = \<lparr>range_min = None, range_max = None\<rparr>"
  by (simp add: Ratio_UnsetRangeX_def Ratio_UnsetRangeY_def Data_UnsetRangeY_def)

section \<open>CutGraph\<close>

lemma RemovePoint_last: "RemovePoint g (GetN g - 1) = g\<lparr>gPoints := butlast (gPoints g)\<rparr>"
  by (cases "gPoints g" rule: rev_cases) (auto simp: RemovePoint_def GetN_def butlast_conv_take)

lemma RemovePoint_first: "RemovePoint g 0 = g\<lparr>gPoints := tl (gPoints g)\<rparr>"
  by (cases "gPoints g") (auto simp: RemovePoint_def GetN_def)

lemma RemoveLast_funpow:
  "((\<lambda>g. RemovePoint g (GetN g - 1)) ^^ n) g
   = g\<lparr>gPoints := take (length (gPoints g) - n) (gPoints g)\<rparr>"
proof (induction n)
  case 0
  then show ?case by simp
next
  case (Suc n)
  then show ?case
    by (simp add: RemovePoint_last butlast_take)
qed

lemma RemoveFirst_funpow:
  "((\<lambda>g. RemovePoint g 0) ^^ n) g = g\<lparr>gPoints := drop n (gPoints g)\<rparr>"
proof (induction n)
  case 0
  then show ?case by simp
next
  case (Suc n)
  then show ?case
    by (simp add: RemovePoint_first drop_Suc tl_drop)
qed

lemma CountPoints_fold:
  "fold (\<lambda>p (pointsToRemoveLow, pointsToRemoveHigh).
             (if cutLow \<and> fst p < cutoffLow then pointsToRemoveLow + 1 else pointsToRemoveLow,
              if cutHigh \<and> fst p > cutoff then pointsToRemoveHigh + 1 else pointsToRemoveHigh))
          pts (a, b)
   = (a + int (length [p\<leftarrow>pts. cutLow \<and> fst p < cutoffLow]),
      b + int (length [p\<leftarrow>pts. cutHigh \<and> fst p > cutoff]))"
  by (induction pts arbitrary: a b) auto

lemma CountPoints_eq:
  "CountPoints cutLow cutHigh cutoff cutoffLow pts
   = (int (length [p\<leftarrow>pts. cutLow \<and> fst p < cutoffLow]),
      int (length [p\<leftarrow>pts. cutHigh \<and> fst p > cutoff]))"
  by (simp add: CountPoints_def CountPoints_fold)

text \<open>What is left of a graph: its points without a suffix and a prefix.\<close>

lemma CutGraph_points:
  "gPoints (CutGraph g cutoff cutoffLow)
   = drop (length [p\<leftarrow>gPoints g. \<not> cutoffLow < -997 \<and> fst p < cutoffLow])
       (take (length (gPoints g) - length [p\<leftarrow>gPoints g. \<not> cutoff < -997 \<and> fst p > cutoff])
          (gPoints g))"
  by (simp add: CutGraph_def CountPoints_eq RemoveLast_funpow RemoveFirst_funpow)

lemma disjoint_counts:
  assumes "cutoffLow \<le> (cutoff::real)"
  shows "length [p\<leftarrow>pts. fst p > cutoff] + length [p\<leftarrow>pts. fst p < cutoffLow] \<le> length pts"
  using assms by (induction pts) auto

text \<open>
  Claim C3, amended. For every graph and enabled cut bounds (neither below \<open>-997\<close>), the
  point count after \<^verbatim>\<open>CutGraph\<close> is the original count minus the number of points with x
  strictly greater than the high bound minus the number of points with x strictly less than
  the low bound, but never less than zero; it is exactly that difference whenever the low
  bound does not exceed the high bound. The surviving points keep their original relative
  order.
\<close>

theorem CutGraph_count_and_order:
  assumes "\<not> cutoff < -997" and "\<not> cutoffLow < -997"
  shows "GetN (CutGraph graph cutoff cutoffLow)
           = max 0 (GetN graph - int (length [p\<leftarrow>gPoints graph. fst p > cutoff])
                               - int (length [p\<leftarrow>gPoints graph. fst p < cutoffLow]))
         \<and> (cutoffLow \<le> cutoff \<longrightarrow>
              GetN (CutGraph graph cutoff cutoffLow)
                = GetN graph - int (length [p\<leftarrow>gPoints graph. fst p > cutoff])
                             - int (length [p\<leftarrow>gPoints graph. fst p < cutoffLow]))
         \<and> subseq (gPoints (CutGraph graph cutoff cutoffLow)) (gPoints graph)"
proof -
  let ?pts = "gPoints graph"
  let ?h = "length [p\<leftarrow>?pts. fst p > cutoff]"
  let ?l = "length [p\<leftarrow>?pts. fst p < cutoffLow]"
  have pts: "gPoints (CutGraph graph cutoff cutoffLow) = drop ?l (take (length ?pts - ?h) ?pts)"
    using assms by (simp add: CutGraph_points)
  have n: "length (gPoints (CutGraph graph cutoff cutoffLow)) = length ?pts - ?h - ?l"
    by (simp add: pts)
  have a: "GetN (CutGraph graph cutoff cutoffLow) = max 0 (GetN graph - int ?h - int ?l)"
    unfolding GetN_def n by linarith
  have b: "cutoffLow \<le> cutoff \<longrightarrow>
             GetN (CutGraph graph cutoff cutoffLow) = GetN graph - int ?h - int ?l"
    using disjoint_counts[of cutoffLow cutoff ?pts] unfolding GetN_def n by auto
  have "subseq (drop ?l (take (length ?pts - ?h) ?pts)) (take (length ?pts - ?h) ?pts)"
    by (metis append_take_drop_id list_emb_append2 subseq_order.order_refl)
  moreover have "subseq (take (length ?pts - ?h) ?pts) ?pts"
    by (metis append_take_drop_id list_emb_prefix subseq_order.order_refl)
  ultimately have c: "subseq (gPoints (CutGraph graph cutoff cutoffLow)) ?pts"
    unfolding pts by (rule subseq_order.order_trans)
  from a b c show ?thesis by blast
qed

text \<open>
  The theorem at the bounds \<open>5\<close> and \<open>1\<close>: of the points at x = 0, 3, 10 the middle one
  survives.
\<close>

theorem CutGraph_count_and_order_witness:
  "\<not> (5::real) < -997 \<and> \<not> (1::real) < -997
   \<and> GetN (CutGraph exGraph 5 1)
       = GetN exGraph - int (length [p\<leftarrow>gPoints exGraph. fst p > 5])
                      - int (length [p\<leftarrow>gPoints exGraph. fst p < 1])
   \<and> GetN (CutGraph exGraph 5 1) = 1
   \<and> subseq (gPoints (CutGraph exGraph 5 1)) (gPoints exGraph)"
proof -
  have h: "\<not> (5::real) < -997" and l: "\<not> (1::real) < -997" by simp_all
  from CutGraph_count_and_order[OF h l, of exGraph] show ?thesis
    by (simp add: exGraph_def GetN_def)
qed

text \<open>
  The count as claim C3 states it fails where the bounds cross: with the high bound \<open>1\<close>
  and the low bound \<open>5\<close> the point at x = 3 is counted on both sides, the graph is left
  empty, and the difference of the claim is \<open>-1\<close>.
\<close>

theorem CutGraph_crossing_bounds:
  "\<not> (1::real) < -997 \<and> \<not> (5::real) < -997
   \<and> GetN (CutGraph exGraph 1 5) = 0
   \<and> GetN exGraph - int (length [p\<leftarrow>gPoints exGraph. fst p > 1])
                   - int (length [p\<leftarrow>gPoints exGraph. fst p < 5]) = -1"
  by (simp add: CutGraph_points exGraph_def GetN_def)

section \<open>CutHistogram\<close>

text \<open>
  With an enabled high bound, the regular bins from the bin of the bound on are zero after
  the cut; with both bounds enabled, so are the regular bins up to the bin of the low bound.
\<close>

lemma fold_ZeroBin_frame:
  "fNcells (fold ZeroBin xs h) = fNcells h \<and> GetNbinsX (fold ZeroBin xs h) = GetNbinsX h
   \<and> FindBin (fold ZeroBin xs h) = FindBin h"
  by (induction xs arbitrary: h) (simp_all add: ZeroBin_def SetBinContent_def SetBinError_def)

lemma fold_ZeroBin_cells:
  "GetBinContent (fold ZeroBin xs h) i
     = (if i \<in> set xs \<and> 0 \<le> i \<and> i < fNcells h then 0 else GetBinContent h i)
   \<and> GetBinError (fold ZeroBin xs h) i
     = (if i \<in> set xs \<and> 0 \<le> i \<and> i < fNcells h then 0 else GetBinError h i)"
proof (induction xs arbitrary: h)
  case Nil
  then show ?case by simp
next
  case (Cons x xs)
  have f: "fNcells (ZeroBin x h) = fNcells h"
    by (simp add: ZeroBin_def SetBinContent_def SetBinError_def)
  have c: "GetBinContent (ZeroBin x h) i
             = (if i = x \<and> 0 \<le> i \<and> i < fNcells h then 0 else GetBinContent h i)"
    "GetBinError (ZeroBin x h) i
             = (if i = x \<and> 0 \<le> i \<and> i < fNcells h then 0 else GetBinError h i)"
    by (auto simp: ZeroBin_def SetBinContent_def SetBinError_def)
  from Cons.IH[of "ZeroBin x h"] f c show ?case by auto
qed

lemma CutHistogram_high_side:
  assumes "\<not> cutoff < -997" and "FindBin hist cutoff \<le> i" and "i \<le> GetNbinsX hist"
    and "0 \<le> i" and "i < fNcells hist"
  shows "GetBinContent (CutHistogram hist cutoff cutoffLow) i = 0
     \<and> GetBinError (CutHistogram hist cutoff cutoffLow) i = 0"
  using assms
  by (simp add: CutHistogram_def Let_def fold_ZeroBin_cells fold_ZeroBin_frame)

lemma CutHistogram_low_side:
  assumes "\<not> cutoff < -997" and "\<not> cutoffLow < -997" and "1 \<le> i"
    and "i \<le> FindBin hist cutoffLow" and "i < fNcells hist"
  shows "GetBinContent (CutHistogram hist cutoff cutoffLow) i = 0
     \<and> GetBinError (CutHistogram hist cutoff cutoffLow) i = 0"
  using assms
  by (simp add: CutHistogram_def Let_def fold_ZeroBin_cells fold_ZeroBin_frame)

text \<open>
  Claim C2 says that a disabled high bound leaves the high side alone while an enabled low
  bound still cuts the low side. With the high bound \<open>-999\<close> (disabled) and the low bound
  \<open>1.5\<close> (enabled, in bin 2) the function returns at line 762: bins 1 and 2 keep content
  \<open>5\<close> and error \<open>2\<close>, and the histogram is unchanged.
\<close>

theorem CutHistogram_low_side_skipped:
  "(-999::real) < -997 \<and> \<not> (1.5::real) < -997 \<and> FindBin exHist 1.5 = 2
   \<and> GetBinContent (CutHistogram exHist (-999) 1.5) 1 = 5
   \<and> GetBinError (CutHistogram exHist (-999) 1.5) 1 = 2
   \<and> GetBinContent (CutHistogram exHist (-999) 1.5) 2 = 5
   \<and> CutHistogram exHist (-999) 1.5 = exHist"
  by (simp add: CutHistogram_def exHist_def)


section \<open>GeneratePlot with too few pads\<close>

text \<open>
  Claim C6. If the plot needs more pads than the style provides, \<^verbatim>\<open>GeneratePlot\<close> returns
  the null pointer without creating a canvas or a pad, writes exactly one line to
  \<^verbatim>\<open>cout\<close>, and leaves the registers of \<^verbatim>\<open>gStyle\<close> as they were.
\<close>

theorem GeneratePlot_pad_count_mismatch:
  assumes "GetNPads plotStyle < GetNumRequiredPads plot"
  shows "\<exists>msg. GeneratePlot ROOT gs plot plotStyle availableData
               = Inr \<lparr>resCanvas = None, resCout = [msg], resStyle = gs\<rparr>"
  using assms by (simp add: GeneratePlot_def)

text \<open>The theorem at the style with one pad and the plot that needs two.\<close>

theorem GeneratePlot_pad_count_mismatch_witness:
  "GetNPads exStyle < GetNumRequiredPads exPlot2
   \<and> (\<exists>msg. GeneratePlot exRoot (\<lambda>r. 0) exPlot2 exStyle exAvail
               = Inr \<lparr>resCanvas = None, resCout = [msg], resStyle = (\<lambda>r. 0)\<rparr>)"
proof -
  have h: "GetNPads exStyle < GetNumRequiredPads exPlot2"
    by (simp add: exStyle_def exPlot2_def)
  from h GeneratePlot_pad_count_mismatch[OF h] show ?thesis by blast
qed

section \<open>The box loop without labels\<close>

lemma BoxLoop_no_lables_cut:
  "BoxLoop ROOT gs entries [] styles bs (pre @ LegendBoxB legendBox # post)
   = BoxLoop ROOT gs entries [] styles bs pre"
proof (induction pre arbitrary: bs)
  case Nil
  then show ?case by simp
next
  case (Cons box pre)
  then show ?case by (cases box) simp_all
qed

lemma BoxLoop_no_lables_result:
  "\<exists>bs'. BoxLoop ROOT gs entries [] styles bs boxes = Inr bs'
     \<and> legendIndex bs' = legendIndex bs
     \<and> boxCout bs' = boxCout bs
     \<and> filter IsLegendPrim (padPrimitives (boxPad bs')) = filter IsLegendPrim (padPrimitives (boxPad bs))
     \<and> length (filter IsTextPrim (padPrimitives (boxPad bs')))
         = length (filter IsTextPrim (padPrimitives (boxPad bs)))
           + length (filter IsTextBox (takeWhile (\<lambda>b. \<not> IsLegendBox b) boxes))
     \<and> length (padPrimitives (boxPad bs'))
         = length (padPrimitives (boxPad bs))
           + length (filter IsTextBox (takeWhile (\<lambda>b. \<not> IsLegendBox b) boxes))"
proof (induction boxes arbitrary: bs)
  case Nil
  then show ?case by simp
next
  case (Cons box boxes)
  show ?case
  proof (cases box)
    case (LegendBoxB lb)
    then show ?thesis by simp
  next
    case (TextBoxB tb)
    let ?bs1 = "bs\<lparr>textIndex := textIndex bs + 1,
           boxPad := (boxPad bs)\<lparr>padPrimitives := padPrimitives (boxPad bs)
               @ [TextPrim ((MakeText ROOT (boxPad bs) tb)
                              \<lparr>tName := ''TextBox_'' @ to_string (textIndex bs)\<rparr>)]\<rparr>\<rparr>"
    from Cons.IH[of ?bs1] TextBoxB show ?thesis by auto
  next
    case (OtherBox t)
    from Cons.IH[of bs] OtherBox show ?thesis by auto
  qed
qed

text \<open>
  Claim C9. When no drawn series of the pad produced a label, the box loop ends at the
  first legend box: the result is that of the boxes before it. No legend is added to the
  pad, and the only primitives added are the text boxes that precede the first legend box
  of the list.
\<close>

theorem BoxLoop_break_without_lables:
  "BoxLoop ROOT gs entries [] styles bs (pre @ LegendBoxB legendBox # post)
     = BoxLoop ROOT gs entries [] styles bs pre
   \<and> (\<exists>bs'. BoxLoop ROOT gs entries [] styles bs (pre @ LegendBoxB legendBox # post) = Inr bs'
        \<and> legendIndex bs' = legendIndex bs
        \<and> filter IsLegendPrim (padPrimitives (boxPad bs'))
            = filter IsLegendPrim (padPrimitives (boxPad bs))
        \<and> length (padPrimitives (boxPad bs'))
            = length (padPrimitives (boxPad bs))
              + length (filter IsTextBox (takeWhile (\<lambda>b. \<not> IsLegendBox b) pre)))"
proof -
  have cut: "BoxLoop ROOT gs entries [] styles bs (pre @ LegendBoxB legendBox # post)
     = BoxLoop ROOT gs entries [] styles bs pre"
    by (rule BoxLoop_no_lables_cut)
  from BoxLoop_no_lables_result[of ROOT gs entries styles bs pre] cut show ?thesis
    by auto
qed

section \<open>MakeLegend\<close>

lemma AddEntries_result:
  "AddEntries entries titles styles i = Inr es \<Longrightarrow>
     map fst es = entries
     \<and> map (fst \<circ> snd) es = take (length entries) (drop i titles)
     \<and> map (snd \<circ> snd) es = map2 EntryDrawStyle entries (drop i styles)"
proof (induction entries arbitrary: i es)
  case Nil
  then show ?case by simp
next
  case (Cons entry entries)
  from Cons.prems obtain es' where
    rest: "AddEntries entries titles styles (Suc i) = Inr es'" and
    es: "es = (entry, titles ! i, EntryDrawStyle entry (styles ! i)) # es'" and
    i: "i < length styles" "i < length titles"
    by (auto split: if_splits sum.splits)
  from i have d: "drop i styles = styles ! i # drop (Suc i) styles"
     "drop i titles = titles ! i # drop (Suc i) titles"
    by (simp_all add: Cons_nth_drop_Suc)
  from Cons.IH[OF rest] es d show ?case by simp
qed

lemma AddEntries_total:
  "i + length entries \<le> length styles \<Longrightarrow> i + length entries \<le> length titles
    \<Longrightarrow> \<exists>es. AddEntries entries titles styles i = Inr es"
proof (induction entries arbitrary: i)
  case Nil
  then show ?case by simp
next
  case (Cons entry entries)
  from Cons.prems have "Suc i + length entries \<le> length styles"
    "Suc i + length entries \<le> length titles" by simp_all
  from Cons.IH[OF this] obtain es where "AddEntries entries titles styles (Suc i) = Inr es"
    by blast
  with Cons.prems show ?case by simp
qed

lemma MakeLegend_unfold:
  assumes "MakeLegend ROOT gs legendBox pad entries titles styles = Inr (legend, pad1, msgs)"
  shows "\<exists>ms. MeasureTitles ROOT legendBox entries
          (length (titles @ (if lbTitle legendBox \<noteq> [] then [lbTitle legendBox] else [])))
          \<lparr>iColumn = 0, iLegend = 1,
           legendWidthPixelPerColumn = replicate (nat (lbNumColumns legendBox)) 0,
           legendHeightPixel = 0, titleWidthPixel = 0, measured = []\<rparr>
          (titles @ (if lbTitle legendBox \<noteq> [] then [lbTitle legendBox] else [])) = Inr ms
     \<and> AddEntries entries (measured ms) styles 0 = Inr (lEntries legend)
     \<and> lY2 legend - lY1 legend
         = TotalHeightNDC (int (length entries) + (if lbTitle legendBox \<noteq> [] then 1 else 0))
             (legendHeightPixel ms / real_of_int (YtoPixel (padGeom pad) (GetY1 (padGeom pad))))
             (lbNumColumns legendBox)
     \<and> LegendPosition ROOT gs legendBox pad (lX2 legend - lX1 legend) (lY2 legend - lY1 legend)
         = ((lX1 legend, lY2 legend), msgs, pad1)"
  using assms
  by (auto simp: MakeLegend_def Let_def split: if_splits sum.splits)

lemma SubstituteTokens_entry:
  "EntryAt ROOT entries i = Inr entry \<Longrightarrow> \<exists>t. SubstituteTokens ROOT toks entries i s = Inr t"
proof (induction toks arbitrary: s)
  case Nil
  then show ?case by simp
next
  case (Cons tv toks)
  obtain token val where tv: "tv = (token, val)" by (cases tv)
  from Cons.prems have "\<exists>t1. ReplaceToken ROOT token val entries i s = Inr t1"
    by (cases "val entry") (simp_all add: ReplaceToken_def)
  then obtain t1 where "ReplaceToken ROOT token val entries i s = Inr t1" by blast
  with Cons.IH[OF Cons.prems, of t1] tv show ?case by simp
qed

lemma SubstituteTokens_in_range:
  "i < length entries \<Longrightarrow> \<exists>t. SubstituteTokens ROOT toks entries i s = Inr t"
  by (rule SubstituteTokens_entry[of ROOT entries i "entries ! i"]) (simp add: EntryAt_def)

lemma SubstituteTokens_without_tokens:
  "list_all (\<lambda>tv. \<not> str_contains s (fst tv)) toks
     \<Longrightarrow> SubstituteTokens ROOT toks entries i s = Inr s"
proof (induction toks)
  case Nil
  then show ?case by simp
next
  case (Cons tv toks)
  obtain token val where tv: "tv = (token, val)" by (cases tv)
  with Cons show ?case by (simp add: ReplaceToken_def)
qed

lemma TokenFree_Tokens:
  "TokenFree s \<Longrightarrow> SubstituteTokens ROOT (Tokens ROOT) entries i s = Inr s"
  by (rule SubstituteTokens_without_tokens) (simp add: TokenFree_def Tokens_def)

lemma MeasureTitles_total:
  assumes "0 < lbNumColumns legendBox"
    and "length (legendWidthPixelPerColumn ms) = nat (lbNumColumns legendBox)"
    and "iColumn ms < nat (lbNumColumns legendBox)"
    and "1 \<le> iLegend ms"
    and "iLegend ms - 1 + length labels \<le> length entries"
    and "n = iLegend ms - 1 + length (labels @ (if lbTitle legendBox \<noteq> [] then [lbTitle legendBox] else []))"
    and "TokenFree (lbTitle legendBox)
         \<or> (\<exists>entry. EntryAt ROOT entries (iLegend ms - 1 + length labels) = Inr entry)"
  shows "\<exists>ms'. MeasureTitles ROOT legendBox entries n ms
                 (labels @ (if lbTitle legendBox \<noteq> [] then [lbTitle legendBox] else [])) = Inr ms'"
  using assms
proof (induction labels arbitrary: ms)
  case Nil
  show ?case
  proof (cases "lbTitle legendBox = []")
    case True
    then show ?thesis by simp
  next
    case False
    with Nil.prems have n: "iLegend ms = n" by simp
    have "\<exists>t. SubstituteTokens ROOT (Tokens ROOT) entries (iLegend ms - 1) (lbTitle legendBox)
                = Inr t"
    proof (cases "TokenFree (lbTitle legendBox)")
      case True
      from TokenFree_Tokens[OF True] show ?thesis by blast
    next
      case False
      with Nil.prems(7) obtain entry where
        "EntryAt ROOT entries (iLegend ms - 1) = Inr entry" by auto
      from SubstituteTokens_entry[OF this] show ?thesis .
    qed
    then obtain t where
      "SubstituteTokens ROOT (Tokens ROOT) entries (iLegend ms - 1) (lbTitle legendBox) = Inr t"
      by blast
    with False n show ?thesis
      by (simp add: Let_def)
  qed
next
  case (Cons l labels)
  from Cons.prems have idx: "iLegend ms - 1 < length entries" by simp
  from SubstituteTokens_in_range[OF idx] obtain t where
    t: "SubstituteTokens ROOT (Tokens ROOT) entries (iLegend ms - 1) l = Inr t" by blast
  from Cons.prems(4) have shift: "iLegend ms - 1 + length (l # labels) = iLegend ms + length labels"
    by simp
  from Cons.prems have notlast: "(lbTitle legendBox \<noteq> [] \<and> iLegend ms = n) = False" by auto
  let ?ms1 = "ms\<lparr>legendHeightPixel :=
                   (if real (snd (GetBoundingBox ROOT t)) > legendHeightPixel ms
                    then real (snd (GetBoundingBox ROOT t)) else legendHeightPixel ms),
                measured := measured ms @ [t]\<rparr>"
  let ?ms2 = "?ms1\<lparr>legendWidthPixelPerColumn :=
                     (if fst (GetBoundingBox ROOT t) > legendWidthPixelPerColumn ms ! iColumn ms
                      then (legendWidthPixelPerColumn ms)[iColumn ms := fst (GetBoundingBox ROOT t)]
                      else legendWidthPixelPerColumn ms),
                   iColumn := (iColumn ms + 1) mod nat (lbNumColumns legendBox),
                   iLegend := iLegend ms + 1\<rparr>"
  have "\<exists>ms'. MeasureTitles ROOT legendBox entries n ?ms2
                 (labels @ (if lbTitle legendBox \<noteq> [] then [lbTitle legendBox] else [])) = Inr ms'"
  proof (rule Cons.IH)
    show "0 < lbNumColumns legendBox" by (rule Cons.prems(1))
    show "length (legendWidthPixelPerColumn ?ms2) = nat (lbNumColumns legendBox)"
      using Cons.prems(2) by simp
    show "iColumn ?ms2 < nat (lbNumColumns legendBox)" using Cons.prems(1) by simp
    show "1 \<le> iLegend ?ms2" by simp
    show "iLegend ?ms2 - 1 + length labels \<le> length entries" using Cons.prems(4,5) by simp
    show "n = iLegend ?ms2 - 1
              + length (labels @ (if lbTitle legendBox \<noteq> [] then [lbTitle legendBox] else []))"
      using Cons.prems(4,6) by simp
    show "TokenFree (lbTitle legendBox)
         \<or> (\<exists>entry. EntryAt ROOT entries (iLegend ?ms2 - 1 + length labels) = Inr entry)"
      using Cons.prems(7) unfolding shift by simp
  qed
  moreover have "MeasureTitles ROOT legendBox entries n ms
                 ((l # labels) @ (if lbTitle legendBox \<noteq> [] then [lbTitle legendBox] else []))
        = MeasureTitles ROOT legendBox entries n ?ms2
                 (labels @ (if lbTitle legendBox \<noteq> [] then [lbTitle legendBox] else []))"
    using t Cons.prems(2,3) by (simp add: Let_def notlast del: de_Morgan_conj)
  ultimately show ?case by simp
qed

lemma MeasureTitles_measured:
  "MeasureTitles ROOT legendBox entries n ms ts = Inr ms' \<Longrightarrow>
     \<exists>new. measured ms' = measured ms @ new \<and> length new = length ts
       \<and> legendHeightPixel ms'
           = foldl max (legendHeightPixel ms) (map (\<lambda>t. real (snd (GetBoundingBox ROOT t))) new)"
proof (induction ts arbitrary: ms)
  case Nil
  then show ?case by simp
next
  case (Cons l ts)
  from Cons.prems obtain t where
    t: "SubstituteTokens ROOT (Tokens ROOT) entries (iLegend ms - 1) l = Inr t"
    by (auto split: sum.splits)
  let ?ms1 = "ms\<lparr>legendHeightPixel :=
                   (if real (snd (GetBoundingBox ROOT t)) > legendHeightPixel ms
                    then real (snd (GetBoundingBox ROOT t)) else legendHeightPixel ms),
                measured := measured ms @ [t]\<rparr>"
  from Cons.prems t obtain ms2 where
    ms2: "MeasureTitles ROOT legendBox entries n ms2 ts = Inr ms'" and
    m2: "measured ms2 = measured ms @ [t]" and
    h2: "legendHeightPixel ms2 = max (legendHeightPixel ms) (real (snd (GetBoundingBox ROOT t)))"
    by (auto simp: Let_def max_def split: if_splits)
  from Cons.IH[OF ms2] obtain new where
    new: "measured ms' = measured ms2 @ new" "length new = length ts"
      "legendHeightPixel ms'
           = foldl max (legendHeightPixel ms2) (map (\<lambda>t. real (snd (GetBoundingBox ROOT t))) new)"
    by blast
  show ?case
  proof (intro exI conjI)
    show "measured ms' = measured ms @ (t # new)" using new m2 by simp
    show "length (t # new) = length (l # ts)" using new by simp
    show "legendHeightPixel ms'
           = foldl max (legendHeightPixel ms)
               (map (\<lambda>t. real (snd (GetBoundingBox ROOT t))) (t # new))"
      using new h2 by simp
  qed
qed

lemma foldl_max_const:
  fixes h :: real
  shows "xs \<noteq> [] \<Longrightarrow> list_all (\<lambda>x. x = h) xs \<Longrightarrow> a \<le> h \<Longrightarrow> foldl max a xs = h"
proof (induction xs arbitrary: a)
  case Nil
  then show ?case by simp
next
  case (Cons x xs)
  then have x: "x = h" by simp
  show ?case
  proof (cases xs)
    case Nil
    with x Cons.prems show ?thesis by (simp add: max_def)
  next
    case (Cons y ys)
    with Cons.prems x have "foldl max (max a x) xs = h"
      by (intro Cons.IH) (simp_all add: max_def)
    then show ?thesis by simp
  qed
qed

lemma MakeLegend_total:
  assumes cols: "0 < lbNumColumns legendBox"
    and lt: "length titles = length entries"
    and ls: "length entries \<le> length styles"
    and tr: "TitleResolves ROOT legendBox entries"
  shows "\<exists>legend pad1 msgs.
           MakeLegend ROOT gs legendBox pad entries titles styles = Inr (legend, pad1, msgs)"
proof -
  from tr lt have slot: "TokenFree (lbTitle legendBox)
         \<or> (\<exists>entry. EntryAt ROOT entries (length titles) = Inr entry)"
    by (auto simp: TitleResolves_def EntryAt_def)
  let ?ts = "titles @ (if lbTitle legendBox \<noteq> [] then [lbTitle legendBox] else [])"
  let ?ms0 = "\<lparr>iColumn = 0, iLegend = 1,
           legendWidthPixelPerColumn = replicate (nat (lbNumColumns legendBox)) 0,
           legendHeightPixel = 0, titleWidthPixel = 0, measured = []\<rparr>"
  have "\<exists>ms'. MeasureTitles ROOT legendBox entries (length ?ts) ?ms0 ?ts = Inr ms'"
    using cols lt slot by (intro MeasureTitles_total) simp_all
  then obtain ms where ms: "MeasureTitles ROOT legendBox entries (length ?ts) ?ms0 ?ts = Inr ms"
    by blast
  from MeasureTitles_measured[OF ms] have "length (measured ms) = length ?ts" by auto
  with lt have "0 + length entries \<le> length (measured ms)" by simp
  moreover from ls have "0 + length entries \<le> length styles" by simp
  ultimately obtain es where es: "AddEntries entries (measured ms) styles 0 = Inr es"
    using AddEntries_total by blast
  from cols ms es show ?thesis
    by (simp add: MakeLegend_def Let_def)
qed

text \<open>
  The entries of the legend that \<^verbatim>\<open>MakeLegend\<close> returns are the given objects in order.
  Line 651 compares the recorded option string with \<open>hist\<close> for equality: the draw style
  of an entry is \<open>l\<close> if the object is a function or the string is \<open>hist\<close>, and \<open>ep\<close>
  otherwise. The string recorded for a labelled series is its drawing-option string
  (lines 263-267).
\<close>

lemma MakeLegend_entries:
  assumes "MakeLegend ROOT gs legendBox pad entries titles styles = Inr (legend, pad1, msgs)"
  shows "map fst (lEntries legend) = entries
     \<and> map (snd \<circ> snd) (lEntries legend)
         = map2 (\<lambda>entry errorStyle.
                   if InheritsFromTF1 entry \<or> errorStyle = ''hist'' then ''l'' else ''ep'')
             entries styles
     \<and> errorStyles (FinishSeries data st)
         = (if GetLable data \<noteq> [] then errorStyles st @ [GetDrawingOptions data]
            else errorStyles st)"
proof -
  from MakeLegend_unfold[OF assms] obtain ms :: MeasureState where
    "AddEntries entries (measured ms) styles 0 = Inr (lEntries legend)" by blast
  from AddEntries_result[OF this] have
    "map fst (lEntries legend) = entries"
    "map (snd \<circ> snd) (lEntries legend) = map2 EntryDrawStyle entries styles"
    by simp_all
  moreover have "EntryDrawStyle = (\<lambda>entry errorStyle.
                   if InheritsFromTF1 entry \<or> errorStyle = ''hist'' then ''l'' else ''ep'')"
    by (intro ext) (simp add: EntryDrawStyle_def)
  ultimately show ?thesis by (simp add: FinishSeries_def Let_def)
qed

text \<open>
  Claim C7, at the labelled histogram \<open>A\<close> with the drawing option \<open>hist C\<close>, alone in its
  pad. The option contains \<open>hist\<close>: line 131 finds it and the histogram is drawn with
  \<open>hist C HIST\<close>, as a line. The string recorded for the legend is \<open>hist C\<close>, the entry
  is a histogram and not a function, and the legend made from the lists of the loop gives
  the entry the draw style \<open>ep\<close>, not \<open>l\<close>: line 651 asks whether the string equals \<open>hist\<close>.
\<close>

theorem legend_style_of_hist_option:
  "str_contains (GetDrawingOptions exDataHistC) ''hist''
   \<and> DrawOptions (primitives (DataLoop exRoot exStyle exAvail [] 1 exLoopState [exDataHistC]))
       = [''hist C HIST'']
   \<and> lables (DataLoop exRoot exStyle exAvail [] 1 exLoopState [exDataHistC]) = [''A'']
   \<and> errorStyles (DataLoop exRoot exStyle exAvail [] 1 exLoopState [exDataHistC])
       = [''hist C'']
   \<and> map InheritsFromTF1
         (legendEntries (DataLoop exRoot exStyle exAvail [] 1 exLoopState [exDataHistC]))
       = [False]
   \<and> (\<exists>legend pad1 msgs.
         MakeLegend exRoot (\<lambda>r. 0.03) exLegendBox exPad
           (legendEntries (DataLoop exRoot exStyle exAvail [] 1 exLoopState [exDataHistC]))
           (lables (DataLoop exRoot exStyle exAvail [] 1 exLoopState [exDataHistC]))
           (errorStyles (DataLoop exRoot exStyle exAvail [] 1 exLoopState [exDataHistC]))
         = Inr (legend, pad1, msgs)
         \<and> map (snd \<circ> snd) (lEntries legend) = [''ep''])"
proof -
  let ?ls = "DataLoop exRoot exStyle exAvail [] 1 exLoopState [exDataHistC]"
  have c: "str_contains (GetDrawingOptions exDataHistC) ''hist''" by code_simp
  have d: "DrawOptions (primitives ?ls) = [''hist C HIST'']" by code_simp
  have l: "lables ?ls = [''A'']" by code_simp
  have s: "errorStyles ?ls = [''hist C'']" by code_simp
  have f: "map InheritsFromTF1 (legendEntries ?ls) = [False]" by code_simp
  then obtain entry where e: "legendEntries ?ls = [entry]" "\<not> InheritsFromTF1 entry"
    by auto
  have "TitleResolves exRoot exLegendBox (legendEntries ?ls)"
    by (simp add: TitleResolves_def exLegendBox_def TokenFree_def str_contains_def)
  then obtain legend pad1 msgs where
    mk: "MakeLegend exRoot (\<lambda>r. 0.03) exLegendBox exPad (legendEntries ?ls) (lables ?ls)
           (errorStyles ?ls) = Inr (legend, pad1, msgs)"
    using MakeLegend_total[of exLegendBox "lables ?ls" "legendEntries ?ls" "errorStyles ?ls"
            exRoot "\<lambda>r. 0.03" exPad]
    unfolding l s e by (auto simp: exLegendBox_def)
  from MakeLegend_entries[OF mk] have "map (snd \<circ> snd) (lEntries legend) = [''ep'']"
    unfolding s e using e(2) by simp
  then have sty: "map (snd \<circ> snd) (lEntries legend) = [''ep'']" .
  have "\<exists>legend pad1 msgs.
         MakeLegend exRoot (\<lambda>r. 0.03) exLegendBox exPad (legendEntries ?ls) (lables ?ls)
           (errorStyles ?ls) = Inr (legend, pad1, msgs)
         \<and> map (snd \<circ> snd) (lEntries legend) = [''ep'']"
    by (rule exI[of _ legend], rule exI[of _ pad1], rule exI[of _ msgs], rule conjI[OF mk sty])
  with c d l s f show ?thesis by - (intro conjI; assumption)
qed

text \<open>
  Claim C8. For a legend with one column, no title and \<open>n\<close> entries (one label for each,
  at least one) whose labels are all measured \<open>h\<close> pixels high, the height of the legend in
  NDC is \<open>(n + 0.5 (n + 1))\<close> times \<open>h\<close> over the pad height in pixels; for three entries
  that is five times. The doubles of the code are reals here.
\<close>

theorem MakeLegend_total_height:
  assumes mk: "MakeLegend ROOT gs legendBox pad entries titles styles = Inr (legend, pad1, msgs)"
    and cols: "lbNumColumns legendBox = 1"
    and notitle: "lbTitle legendBox = []"
    and lens: "length titles = length entries"
    and nonempty: "entries \<noteq> []"
    and heights: "list_all (\<lambda>e. snd (GetBoundingBox ROOT (fst (snd e))) = h) (lEntries legend)"
  shows "lY2 legend - lY1 legend
           = (real (length entries) + 0.5 * (real (length entries) + 1))
             * (real h / real_of_int (YtoPixel (padGeom pad) (GetY1 (padGeom pad))))
         \<and> (length entries = 3 \<longrightarrow>
              lY2 legend - lY1 legend
                = 5 * (real h / real_of_int (YtoPixel (padGeom pad) (GetY1 (padGeom pad)))))"
proof -
  let ?ms0 = "\<lparr>iColumn = 0, iLegend = 1,
           legendWidthPixelPerColumn = replicate (nat (lbNumColumns legendBox)) 0,
           legendHeightPixel = 0, titleWidthPixel = 0, measured = []\<rparr>"
  from MakeLegend_unfold[OF mk] notitle obtain ms where
    ms: "MeasureTitles ROOT legendBox entries (length titles) ?ms0 titles = Inr ms" and
    es: "AddEntries entries (measured ms) styles 0 = Inr (lEntries legend)" and
    total: "lY2 legend - lY1 legend
         = TotalHeightNDC (int (length entries))
             (legendHeightPixel ms / real_of_int (YtoPixel (padGeom pad) (GetY1 (padGeom pad))))
             (lbNumColumns legendBox)"
    by auto
  from MeasureTitles_measured[OF ms] have
    len: "length (measured ms) = length titles" and
    hp: "legendHeightPixel ms
           = foldl max 0 (map (\<lambda>t. real (snd (GetBoundingBox ROOT t))) (measured ms))"
    by auto
  from AddEntries_result[OF es] len lens have
    labels: "map (fst \<circ> snd) (lEntries legend) = measured ms" by simp
  have "list_all (\<lambda>t. snd (GetBoundingBox ROOT t) = h) (map (fst \<circ> snd) (lEntries legend))"
    using heights by (simp add: list_all_iff)
  then have all: "list_all (\<lambda>x. x = real h) (map (\<lambda>t. real (snd (GetBoundingBox ROOT t))) (measured ms))"
    unfolding labels by (simp add: list_all_iff)
  have ne: "map (\<lambda>t. real (snd (GetBoundingBox ROOT t))) (measured ms) \<noteq> []"
    using len lens nonempty by auto
  have "legendHeightPixel ms = real h"
    unfolding hp by (rule foldl_max_const[OF ne all]) simp
  with total cols have
    eq: "lY2 legend - lY1 legend
           = (real (length entries) + 0.5 * (real (length entries) + 1))
             * (real h / real_of_int (YtoPixel (padGeom pad) (GetY1 (padGeom pad))))"
    by (simp add: TotalHeightNDC_def)
  then show ?thesis by auto
qed

text \<open>The theorem at three entries of height 20 in a pad of height 600.\<close>

theorem MakeLegend_total_height_witness:
  "\<exists>legend pad1 msgs.
      MakeLegend exRoot (\<lambda>r. 0.03) exLegendBox exPad exEntries exTitles exStyles
        = Inr (legend, pad1, msgs)
      \<and> lbNumColumns exLegendBox = 1 \<and> lbTitle exLegendBox = []
      \<and> length exTitles = length exEntries \<and> length exEntries = 3
      \<and> list_all (\<lambda>e. snd (GetBoundingBox exRoot (fst (snd e))) = 20) (lEntries legend)
      \<and> lY2 legend - lY1 legend = 5 * (20 / 600)"
proof -
  have "TitleResolves exRoot exLegendBox exEntries"
    by (simp add: TitleResolves_def exLegendBox_def TokenFree_def str_contains_def)
  then obtain legend pad1 msgs where
    mk: "MakeLegend exRoot (\<lambda>r. 0.03) exLegendBox exPad exEntries exTitles exStyles
           = Inr (legend, pad1, msgs)"
    using MakeLegend_total[of exLegendBox exTitles exEntries exStyles exRoot "\<lambda>r. 0.03" exPad]
    by (auto simp: exLegendBox_def exTitles_def exEntries_def exStyles_def)
  have c: "lbNumColumns exLegendBox = 1" and t: "lbTitle exLegendBox = []"
    by (simp_all add: exLegendBox_def)
  have l: "length exTitles = length exEntries" and n: "exEntries \<noteq> []"
    and n3: "length exEntries = 3"
    by (simp_all add: exTitles_def exEntries_def)
  have h: "list_all (\<lambda>e. snd (GetBoundingBox exRoot (fst (snd e))) = 20) (lEntries legend)"
    by (simp add: exRoot_def list_all_iff)
  from MakeLegend_total_height[OF mk c t l n h] n3 have
    "lY2 legend - lY1 legend = 5 * (20 / 600)"
    by (simp add: exPad_def exGeom_def)
  with mk c t l n3 h show ?thesis by auto
qed

section \<open>Auto-placement of a legend\<close>

lemma MakeLegend_fault:
  assumes "\<not> lbNumColumns legendBox < 0"
    and "MeasureTitles ROOT legendBox entries
          (length (titles @ (if lbTitle legendBox \<noteq> [] then [lbTitle legendBox] else [])))
          \<lparr>iColumn = 0, iLegend = 1,
           legendWidthPixelPerColumn = replicate (nat (lbNumColumns legendBox)) 0,
           legendHeightPixel = 0, titleWidthPixel = 0, measured = []\<rparr>
          (titles @ (if lbTitle legendBox \<noteq> [] then [lbTitle legendBox] else [])) = Inl f"
  shows "MakeLegend ROOT gs legendBox pad entries titles styles = Inl f"
  using assms by (simp add: MakeLegend_def Let_def)

lemma MeasureTitles_no_columns:
  assumes "lbNumColumns legendBox = 0"
    and "legendWidthPixelPerColumn ms = []"
    and "iLegend ms - 1 < length entries"
    and "(lbTitle legendBox \<noteq> [] \<and> iLegend ms = n) = False"
  shows "MeasureTitles ROOT legendBox entries n ms (l # rest) = Inl OutOfRange"
proof -
  from SubstituteTokens_in_range[OF assms(3)] obtain t where
    t: "SubstituteTokens ROOT (Tokens ROOT) entries (iLegend ms - 1) l = Inr t" by blast
  show ?thesis using t assms(2) by (simp add: Let_def assms(4) del: de_Morgan_conj)
qed

lemma MeasureTitles_title_fault:
  assumes "0 < lbNumColumns legendBox"
    and "length (legendWidthPixelPerColumn ms) = nat (lbNumColumns legendBox)"
    and "iColumn ms < nat (lbNumColumns legendBox)"
    and "1 \<le> iLegend ms"
    and "iLegend ms - 1 + length labels \<le> length entries"
    and "n = iLegend ms + length labels"
    and "lbTitle legendBox \<noteq> []"
    and "SubstituteTokens ROOT (Tokens ROOT) entries (iLegend ms - 1 + length labels)
           (lbTitle legendBox) = Inl f"
  shows "MeasureTitles ROOT legendBox entries n ms (labels @ [lbTitle legendBox]) = Inl f"
  using assms
proof (induction labels arbitrary: ms)
  case Nil
  then show ?case by simp
next
  case (Cons l labels)
  from Cons.prems have idx: "iLegend ms - 1 < length entries" by simp
  from SubstituteTokens_in_range[OF idx] obtain t where
    t: "SubstituteTokens ROOT (Tokens ROOT) entries (iLegend ms - 1) l = Inr t" by blast
  from Cons.prems(4) have shift: "iLegend ms - 1 + length (l # labels) = iLegend ms + length labels"
    by simp
  from Cons.prems have notlast: "(lbTitle legendBox \<noteq> [] \<and> iLegend ms = n) = False" by auto
  let ?ms1 = "ms\<lparr>legendHeightPixel :=
                   (if real (snd (GetBoundingBox ROOT t)) > legendHeightPixel ms
                    then real (snd (GetBoundingBox ROOT t)) else legendHeightPixel ms),
                measured := measured ms @ [t]\<rparr>"
  let ?ms2 = "?ms1\<lparr>legendWidthPixelPerColumn :=
                     (if fst (GetBoundingBox ROOT t) > legendWidthPixelPerColumn ms ! iColumn ms
                      then (legendWidthPixelPerColumn ms)[iColumn ms := fst (GetBoundingBox ROOT t)]
                      else legendWidthPixelPerColumn ms),
                   iColumn := (iColumn ms + 1) mod nat (lbNumColumns legendBox),
                   iLegend := iLegend ms + 1\<rparr>"
  have "MeasureTitles ROOT legendBox entries n ?ms2 (labels @ [lbTitle legendBox]) = Inl f"
  proof (rule Cons.IH)
    show "0 < lbNumColumns legendBox" by (rule Cons.prems(1))
    show "length (legendWidthPixelPerColumn ?ms2) = nat (lbNumColumns legendBox)"
      using Cons.prems(2) by simp
    show "iColumn ?ms2 < nat (lbNumColumns legendBox)" using Cons.prems(1) by simp
    show "1 \<le> iLegend ?ms2" by simp
    show "iLegend ?ms2 - 1 + length labels \<le> length entries" using Cons.prems(4,5) by simp
    show "n = iLegend ?ms2 + length labels" using Cons.prems(4,6) by simp
    show "lbTitle legendBox \<noteq> []" by (rule Cons.prems(7))
    show "SubstituteTokens ROOT (Tokens ROOT) entries (iLegend ?ms2 - 1 + length labels)
           (lbTitle legendBox) = Inl f"
      using Cons.prems(8) unfolding shift by simp
  qed
  moreover have "MeasureTitles ROOT legendBox entries n ms ((l # labels) @ [lbTitle legendBox])
        = MeasureTitles ROOT legendBox entries n ?ms2 (labels @ [lbTitle legendBox])"
    using t Cons.prems(2,3) by (simp add: Let_def notlast del: de_Morgan_conj)
  ultimately show ?case by simp
qed

text \<open>
  Without a column the first label is measured into an empty vector; with a title whose
  token cannot be replaced the call ends at the dereference. Neither call returns a
  legend.
\<close>

lemma MakeLegend_no_columns:
  assumes "lbNumColumns legendBox = 0" and "entries \<noteq> []" and "titles \<noteq> []"
  shows "MakeLegend ROOT gs legendBox pad entries titles styles = Inl OutOfRange"
proof -
  from assms(3) obtain l rest where ts: "titles = l # rest" by (cases titles) auto
  let ?ts = "titles @ (if lbTitle legendBox \<noteq> [] then [lbTitle legendBox] else [])"
  let ?ms0 = "\<lparr>iColumn = 0, iLegend = 1,
           legendWidthPixelPerColumn = replicate (nat (lbNumColumns legendBox)) 0,
           legendHeightPixel = 0, titleWidthPixel = 0, measured = []\<rparr>"
  have "MeasureTitles ROOT legendBox entries (length ?ts) ?ms0
          (l # rest @ (if lbTitle legendBox \<noteq> [] then [lbTitle legendBox] else []))
        = Inl OutOfRange"
    using assms(1,2) ts by (intro MeasureTitles_no_columns) auto
  then have "MeasureTitles ROOT legendBox entries (length ?ts) ?ms0 ?ts = Inl OutOfRange"
    by (simp add: ts)
  with assms(1) show ?thesis by (intro MakeLegend_fault) simp_all
qed

lemma MakeLegend_title_fault:
  assumes "0 < lbNumColumns legendBox" and "length titles = length entries"
    and "lbTitle legendBox \<noteq> []"
    and "SubstituteTokens ROOT (Tokens ROOT) entries (length entries) (lbTitle legendBox) = Inl f"
  shows "MakeLegend ROOT gs legendBox pad entries titles styles = Inl f"
proof -
  let ?ms0 = "\<lparr>iColumn = 0, iLegend = 1,
           legendWidthPixelPerColumn = replicate (nat (lbNumColumns legendBox)) 0,
           legendHeightPixel = 0, titleWidthPixel = 0, measured = []\<rparr>"
  have "MeasureTitles ROOT legendBox entries (length (titles @ [lbTitle legendBox])) ?ms0
          (titles @ [lbTitle legendBox]) = Inl f"
    using assms by (intro MeasureTitles_title_fault) simp_all
  with assms(1,3) show ?thesis by (intro MakeLegend_fault) simp_all
qed

lemma RemoveObject_margins:
  "RemoveObject (BoxPrim ''marginsRight'' b4) (RemoveObject (BoxPrim ''marginsLeft'' b3)
     (RemoveObject (BoxPrim ''marginsTop'' b2) (RemoveObject (BoxPrim ''marginsBottom'' b1)
        (P @ [BoxPrim ''marginsBottom'' b1, BoxPrim ''marginsTop'' b2,
              BoxPrim ''marginsLeft'' b3, BoxPrim ''marginsRight'' b4]))))
     = P"
  by (simp add: RemoveObject_def)

lemma pad_keeps_primitives:
  "pad\<lparr>padGeom := g, padPrimitives := padPrimitives pad\<rparr> = pad\<lparr>padGeom := g\<rparr>"
  by simp

lemma fallback_algebra: "(1 + 1 / 0.9) * (0.9 * t * a / b) = 0.9 * (t * a / b) + t * a / (b::real)"
  by (simp add: field_simps)

lemma FallbackCorner_code:
  "FallbackCorner gs g
     = ((GetUxmin g - GetX1 g) / (GetX2 g - GetX1 g)
          + (1 + 1 / 0.9) * (0.9 * gs ''TickLengthY'' * (GetUxmax g - GetUxmin g)
                             / (GetX2 g - GetX1 g)),
        (GetUymax g - GetY1 g) / (GetY2 g - GetY1 g)
          - (1 + 1 / 0.9) * (0.9 * gs ''TickLengthX'' * (GetUymax g - GetUymin g)
                             / (GetY2 g - GetY1 g)))"
  unfolding FallbackCorner_def Let_def fallback_algebra by (simp add: mult_ac)

text \<open>
  The branch of an auto-placed box, by the result of its search: the pad keeps its
  primitives, and the corner and the message follow what the last call of \<^verbatim>\<open>PlaceBox\<close>
  returned.
\<close>

lemma AutoPlace_search:
  "AutoPlace ROOT gs pad w h
     = (if fst (LegendSearch ROOT gs pad w h)
        then ((fst (snd (LegendSearch ROOT gs pad w h)) + 2 * MarginX gs (Update ROOT pad),
               snd (snd (LegendSearch ROOT gs pad w h)) + h + 2 * MarginY gs (Update ROOT pad)),
              [], pad\<lparr>padGeom := Update ROOT pad\<rparr>)
        else (FallbackCorner gs (Update ROOT pad),
              [''Warning: Could not find enough space to place legend properly.''],
              pad\<lparr>padGeom := Update ROOT pad\<rparr>))"
  unfolding AutoPlace_def LegendSearch_def MarginBoxes_def MarginX_def MarginY_def
    FallbackCorner_code Let_def RemoveObject_margins pad_keeps_primitives
  by (rule refl)

lemma AutoPlace_found:
  assumes "fst (LegendSearch ROOT gs pad w h)"
  shows "AutoPlace ROOT gs pad w h
     = ((fst (snd (LegendSearch ROOT gs pad w h)) + 2 * MarginX gs (Update ROOT pad),
         snd (snd (LegendSearch ROOT gs pad w h)) + h + 2 * MarginY gs (Update ROOT pad)),
        [], pad\<lparr>padGeom := Update ROOT pad\<rparr>)"
  unfolding AutoPlace_search using assms by (simp only: if_True)

lemma AutoPlace_not_found:
  assumes "\<not> fst (LegendSearch ROOT gs pad w h)"
  shows "AutoPlace ROOT gs pad w h
     = (FallbackCorner gs (Update ROOT pad),
        [''Warning: Could not find enough space to place legend properly.''],
        pad\<lparr>padGeom := Update ROOT pad\<rparr>)"
  unfolding AutoPlace_search using assms by (simp only: if_False)

text \<open>
  Claim C5, amended. For an auto-placed legend box with at least one column whose title
  resolves, called with one label and one recorded option for every entry (as the data
  loop leaves them), \<^verbatim>\<open>MakeLegend\<close> returns a legend, and the pad holds the same primitives
  after the call as before it: the four temporary rectangles are gone, whether a position
  was found or not. The search is the one of lines 579-601 for the width and height of
  this legend, over the primitives of the pad and the four rectangles; its last call of
  \<^verbatim>\<open>PlaceBox\<close> decides. If it found a position, nothing is written and the lower left
  corner of the legend is that position moved in by two margins. If it did not, exactly
  one warning is written and the upper left corner of the legend is the fallback corner.
  The doubles of the code are reals here.
\<close>

theorem MakeLegend_auto_placement:
  assumes auto: "IsAutoPlacement (lbX legendBox) (lbY legendBox)"
    and cols: "0 < lbNumColumns legendBox"
    and lt: "length titles = length entries"
    and ls: "length entries \<le> length styles"
    and tr: "TitleResolves ROOT legendBox entries"
  shows "\<exists>legend pad1 msgs.
           MakeLegend ROOT gs legendBox pad entries titles styles = Inr (legend, pad1, msgs)
           \<and> padPrimitives pad1 = padPrimitives pad
           \<and> (let found = LegendSearch ROOT gs pad (lX2 legend - lX1 legend)
                               (lY2 legend - lY1 legend)
                in if fst found
                   then msgs = []
                        \<and> lX1 legend = fst (snd found) + 2 * MarginX gs (Update ROOT pad)
                        \<and> lY1 legend = snd (snd found) + 2 * MarginY gs (Update ROOT pad)
                   else msgs = [''Warning: Could not find enough space to place legend properly.'']
                        \<and> (lX1 legend, lY2 legend) = FallbackCorner gs (Update ROOT pad))"
proof -
  from MakeLegend_total[OF cols lt ls tr] obtain legend pad1 msgs where
    mk: "MakeLegend ROOT gs legendBox pad entries titles styles = Inr (legend, pad1, msgs)"
    by blast
  let ?w = "lX2 legend - lX1 legend"
  let ?h = "lY2 legend - lY1 legend"
  from MakeLegend_unfold[OF mk] auto have
    pos: "AutoPlace ROOT gs pad ?w ?h = ((lX1 legend, lY2 legend), msgs, pad1)"
    by (auto simp: LegendPosition_def)
  have "padPrimitives pad1 = padPrimitives pad
      \<and> (if fst (LegendSearch ROOT gs pad ?w ?h)
         then msgs = []
              \<and> lX1 legend = fst (snd (LegendSearch ROOT gs pad ?w ?h))
                               + 2 * MarginX gs (Update ROOT pad)
              \<and> lY1 legend = snd (snd (LegendSearch ROOT gs pad ?w ?h))
                               + 2 * MarginY gs (Update ROOT pad)
         else msgs = [''Warning: Could not find enough space to place legend properly.'']
              \<and> (lX1 legend, lY2 legend) = FallbackCorner gs (Update ROOT pad))"
  proof (cases "fst (LegendSearch ROOT gs pad ?w ?h)")
    case True
    from pos show ?thesis
      unfolding AutoPlace_found[OF True] using True by auto
  next
    case False
    from pos show ?thesis
      unfolding AutoPlace_not_found[OF False] using False by auto
  qed
  with mk show ?thesis by (simp add: Let_def)
qed

lemma LegendSearch_exRootLast:
  "LegendSearch exRootLast gs exPad w h = (False, (0.2, 0.3))"
  by (simp add: LegendSearch_def SearchPosition_def MarginBoxes_def exRootLast_def exRoot_def
        exPad_def Let_def)

lemma LegendSearch_exRootFree:
  "LegendSearch exRootFree gs exPad w h = (True, (0.2, 0.3))"
  by (simp add: LegendSearch_def SearchPosition_def MarginBoxes_def exRootFree_def exRoot_def
        exPad_def Let_def)

text \<open>
  The theorem with a tick length of 0.03 in two backends. Where \<^verbatim>\<open>PlaceBox\<close> finds a
  position next to the histogram of the pad but none next to the rectangles, the search
  fails on its last call: the warning is written and the corner is at
  \<open>(0.1456, 0.8544)\<close>. Where every call finds \<open>(0.2, 0.3)\<close>, nothing is written and the
  lower left corner of the legend is at \<open>(0.2432, 0.3432)\<close>.
\<close>

theorem MakeLegend_auto_placement_witness:
  "IsAutoPlacement (lbX exLegendBox) (lbY exLegendBox) \<and> 0 < lbNumColumns exLegendBox
   \<and> length exTitles = length exEntries \<and> length exEntries \<le> length exStyles
   \<and> TitleResolves exRootLast exLegendBox exEntries
   \<and> TitleResolves exRootFree exLegendBox exEntries
   \<and> (\<exists>legend pad1 msgs.
         MakeLegend exRootLast (\<lambda>r. 0.03) exLegendBox exPad exEntries exTitles exStyles
           = Inr (legend, pad1, msgs)
         \<and> padPrimitives pad1 = padPrimitives exPad
         \<and> \<not> fst (LegendSearch exRootLast (\<lambda>r. 0.03) exPad (lX2 legend - lX1 legend)
                     (lY2 legend - lY1 legend))
         \<and> msgs = [''Warning: Could not find enough space to place legend properly.'']
         \<and> lX1 legend = 0.1456 \<and> lY2 legend = 0.8544)
   \<and> (\<exists>legend pad1 msgs.
         MakeLegend exRootFree (\<lambda>r. 0.03) exLegendBox exPad exEntries exTitles exStyles
           = Inr (legend, pad1, msgs)
         \<and> padPrimitives pad1 = padPrimitives exPad
         \<and> fst (LegendSearch exRootFree (\<lambda>r. 0.03) exPad (lX2 legend - lX1 legend)
                   (lY2 legend - lY1 legend))
         \<and> msgs = [] \<and> lX1 legend = 0.2432 \<and> lY1 legend = 0.3432)"
proof -
  have a: "IsAutoPlacement (lbX exLegendBox) (lbY exLegendBox)"
    by (simp add: exLegendBox_def IsAutoPlacement_def)
  have c: "0 < lbNumColumns exLegendBox" by (simp add: exLegendBox_def)
  have l: "length exTitles = length exEntries" by (simp add: exTitles_def exEntries_def)
  have s: "length exEntries \<le> length exStyles" by (simp add: exStyles_def exEntries_def)
  have t: "TitleResolves ROOT exLegendBox exEntries" for ROOT
    by (simp add: TitleResolves_def exLegendBox_def TokenFree_def str_contains_def)
  have f: "FallbackCorner (\<lambda>r. 0.03) (Update exRootLast exPad) = (0.1456, 0.8544)"
    by (simp add: FallbackCorner_def exRootLast_def exRoot_def exPad_def exGeom_def Let_def)
  have m: "MarginX (\<lambda>r. 0.03) (Update exRootFree exPad) = 0.0216"
    "MarginY (\<lambda>r. 0.03) (Update exRootFree exPad) = 0.0216"
    by (simp_all add: MarginX_def MarginY_def exRootFree_def exRoot_def exPad_def exGeom_def)
  from MakeLegend_auto_placement[OF a c l s t, of exRootLast "\<lambda>r. 0.03" exPad] f
  have last: "\<exists>legend pad1 msgs.
         MakeLegend exRootLast (\<lambda>r. 0.03) exLegendBox exPad exEntries exTitles exStyles
           = Inr (legend, pad1, msgs)
         \<and> padPrimitives pad1 = padPrimitives exPad
         \<and> \<not> fst (LegendSearch exRootLast (\<lambda>r. 0.03) exPad (lX2 legend - lX1 legend)
                     (lY2 legend - lY1 legend))
         \<and> msgs = [''Warning: Could not find enough space to place legend properly.'']
         \<and> lX1 legend = 0.1456 \<and> lY2 legend = 0.8544"
    by (auto simp: LegendSearch_exRootLast Let_def)
  from MakeLegend_auto_placement[OF a c l s t, of exRootFree "\<lambda>r. 0.03" exPad] m
  have free: "\<exists>legend pad1 msgs.
         MakeLegend exRootFree (\<lambda>r. 0.03) exLegendBox exPad exEntries exTitles exStyles
           = Inr (legend, pad1, msgs)
         \<and> padPrimitives pad1 = padPrimitives exPad
         \<and> fst (LegendSearch exRootFree (\<lambda>r. 0.03) exPad (lX2 legend - lX1 legend)
                   (lY2 legend - lY1 legend))
         \<and> msgs = [] \<and> lX1 legend = 0.2432 \<and> lY1 legend = 0.3432"
    by (auto simp: LegendSearch_exRootFree Let_def)
  from a c l s t last free show ?thesis by blast
qed

text \<open>
  Claim C5 as stated fails: not every auto-placed legend box gets its legend. With zero
  columns line 547 indexes an empty vector and line 549 reduces the column index modulo
  zero. With the token \<open>name\<close> in the title and two entries, line 494 reads the slot past
  the last entry and dereferences it, here the null pointer. In both cases the call does
  not return a legend.
\<close>

theorem MakeLegend_without_legend:
  "IsAutoPlacement (lbX (exLegendBox\<lparr>lbNumColumns := 0\<rparr>)) (lbY (exLegendBox\<lparr>lbNumColumns := 0\<rparr>))
   \<and> MakeLegend exRoot (\<lambda>r. 0.03) (exLegendBox\<lparr>lbNumColumns := 0\<rparr>) exPad
         exEntries exTitles exStyles = Inl OutOfRange
   \<and> IsAutoPlacement (lbX (exLegendBox\<lparr>lbTitle := ''<name>''\<rparr>))
         (lbY (exLegendBox\<lparr>lbTitle := ''<name>''\<rparr>))
   \<and> SlotPastLast exRoot (take 2 exEntries) (length (take 2 exEntries)) = None
   \<and> MakeLegend exRoot (\<lambda>r. 0.03) (exLegendBox\<lparr>lbTitle := ''<name>''\<rparr>) exPad
         (take 2 exEntries) (take 2 exTitles) exStyles = Inl NullPointer"
proof -
  have a: "IsAutoPlacement (lbX (exLegendBox\<lparr>lbNumColumns := 0\<rparr>))
             (lbY (exLegendBox\<lparr>lbNumColumns := 0\<rparr>))"
    "IsAutoPlacement (lbX (exLegendBox\<lparr>lbTitle := ''<name>''\<rparr>))
             (lbY (exLegendBox\<lparr>lbTitle := ''<name>''\<rparr>))"
    by (simp_all add: exLegendBox_def IsAutoPlacement_def)
  have s: "SlotPastLast exRoot (take 2 exEntries) (length (take 2 exEntries)) = None"
    by (simp add: exRoot_def)
  have zero: "MakeLegend exRoot (\<lambda>r. 0.03) (exLegendBox\<lparr>lbNumColumns := 0\<rparr>) exPad
         exEntries exTitles exStyles = Inl OutOfRange"
    by (rule MakeLegend_no_columns) (simp_all add: exEntries_def exTitles_def)
  have len: "length (take 2 exTitles) = length (take 2 exEntries)"
    by (simp add: exTitles_def exEntries_def)
  have name: "SubstituteTokens exRoot (Tokens exRoot) (take 2 exEntries)
                (length (take 2 exEntries)) (lbTitle (exLegendBox\<lparr>lbTitle := ''<name>''\<rparr>))
              = Inl NullPointer"
    by code_simp
  have title: "MakeLegend exRoot (\<lambda>r. 0.03) (exLegendBox\<lparr>lbTitle := ''<name>''\<rparr>) exPad
         (take 2 exEntries) (take 2 exTitles) exStyles = Inl NullPointer"
    by (rule MakeLegend_title_fault[OF _ len _ name]) (simp_all add: exLegendBox_def)
  from a s zero title show ?thesis by - (intro conjI; assumption)
qed

section \<open>The data loop\<close>

lemma MarkerColors_append: "MarkerColors (a @ b) = MarkerColors a @ MarkerColors b"
  by (simp add: MarkerColors_def)

lemma MarkerColors_Nil: "MarkerColors [] = []"
  by (simp add: MarkerColors_def)

lemma fold_ZeroBin_class:
  "hInheritsTH2 (fold ZeroBin xs h) = hInheritsTH2 h
   \<and> GetXmin (fold ZeroBin xs h) = GetXmin h \<and> GetXmax (fold ZeroBin xs h) = GetXmax h"
  by (induction xs arbitrary: h) (simp_all add: ZeroBin_def SetBinContent_def SetBinError_def)

lemma CutHistogram_class:
  "hInheritsTH2 (CutHistogram h a b) = hInheritsTH2 h"
  by (simp add: CutHistogram_def Let_def fold_ZeroBin_class)

lemma ResolveStyle_nonneg:
  assumes "0 \<le> GetColor data" and "\<And>i. 0 \<le> GetDefaultColor plotStyle i"
  shows "fst (ResolveStyle plotStyle data i) = i"
    and "fst (snd (ResolveStyle plotStyle data i))
           = (if GetColor data \<noteq> 0 then GetColor data else GetDefaultColor plotStyle i)"
  using assms(1) assms(2)[of i] by (auto simp: ResolveStyle_def Let_def)

lemma ResolveStyle_negative:
  assumes "GetColor data = - k" and "1 \<le> k"
  shows "fst (ResolveStyle plotStyle data i) = i - k"
    and "fst (snd (ResolveStyle plotStyle data i)) = GetDefaultColor plotStyle (i - k)"
  using assms by (auto simp: ResolveStyle_def Let_def)

lemma DrawHist_facts:
  "dataIndex (DrawHist ROOT plotStyle controlString data color style histo st) = dataIndex st
   \<and> (\<exists>more. primitives (DrawHist ROOT plotStyle controlString data color style histo st)
                = primitives st @ more
        \<and> MarkerColors more = [color] \<and> filter IsFunctionPrim more = [])"
  by (auto simp: DrawHist_def Let_def ErrorBoxes_def MarkerColors_def)

lemma DrawGraph_facts:
  "dataIndex (DrawGraph data pid color style graph st) = dataIndex st
   \<and> (\<exists>more. primitives (DrawGraph data pid color style graph st) = primitives st @ more
        \<and> MarkerColors more = [color] \<and> filter IsFunctionPrim more = [])"
  by (auto simp: DrawGraph_def Let_def ErrorBoxes_def MarkerColors_def)

lemma FinishSeries_facts:
  "dataIndex (FinishSeries data st) = dataIndex st + 1
   \<and> primitives (FinishSeries data st) = primitives st
   \<and> view (FinishSeries data st) = view st"
  by (simp add: FinishSeries_def Let_def)

lemma DrawRatio_first:
  assumes "\<not> hInheritsTH2 ratio0" and "dataIndex st = 0"
  shows "dataIndex (DrawRatio ROOT plotStyle data color style ratio0 temp st) = 1
   \<and> view (DrawRatio ROOT plotStyle data color style ratio0 temp st) = view st
   \<and> (\<exists>dummy calls rest.
         primitives (DrawRatio ROOT plotStyle data color style ratio0 temp st)
           = primitives st
             @ Drawn (TH1Obj dummy) calls ''AXIS''
             # Drawn (TF1Obj \<lparr>fName = ''line'', fFormula = ''1'',
                               fXmin = GetXmin dummy, fXmax = GetXmax dummy\<rparr>)
                 [SetLineColor kBlack, SetLineWidth 2] ''SAME''
             # rest
         \<and> hName dummy = ''dummy''
         \<and> MarkerColors rest
            = [if GetColor data \<noteq> 0 then GetColor data else GetDefaultColor plotStyle 1])"
  using assms
  by (auto simp: DrawRatio_def Let_def CutHistogram_class ErrorBoxes_def MarkerColors_def)

lemma DrawRatio_later:
  assumes "hInheritsTH2 ratio0 \<or> dataIndex st \<noteq> 0"
  shows "dataIndex (DrawRatio ROOT plotStyle data color style ratio0 temp st) = dataIndex st
   \<and> view (DrawRatio ROOT plotStyle data color style ratio0 temp st)
       = (if hInheritsTH2 ratio0
          then Some ([-0.5, -1, -3.610432, 100.5, 1.778151, 0.1470754], 49.5, 230)
          else view st)
   \<and> (\<exists>more. primitives (DrawRatio ROOT plotStyle data color style ratio0 temp st)
               = primitives st @ more
         \<and> MarkerColors more = [color] \<and> filter IsFunctionPrim more = [])"
  using assms
  by (auto simp: DrawRatio_def Let_def CutHistogram_class ErrorBoxes_def MarkerColors_def)

lemma DrawSeries_hist:
  assumes "GetType data = ''hist''"
    and "GetDataClone_TH1 (GetUniqueName data) availableData = (Some histo, msgs)"
  shows "DrawSeries ROOT plotStyle availableData controlString pid st data
     = FinishSeries data
         (DrawHist ROOT plotStyle controlString data
            (fst (snd (ResolveStyle plotStyle data (dataIndex st))))
            (snd (snd (ResolveStyle plotStyle data (dataIndex st)))) histo
            (st\<lparr>dataIndex := fst (ResolveStyle plotStyle data (dataIndex st)),
                drawingOptions := drawingOptions st @ GetDrawingOptions data,
                cout := cout st @ msgs\<rparr>))"
  using assms by (simp add: DrawSeries_def Let_def case_prod_beta)

lemma DrawSeries_graph:
  assumes "GetType data = ''graph''"
    and "GetDataClone_TGraph (GetUniqueName data) availableData = (Some graph, msgs)"
  shows "DrawSeries ROOT plotStyle availableData controlString pid st data
     = FinishSeries data
         (DrawGraph data pid
            (fst (snd (ResolveStyle plotStyle data (dataIndex st))))
            (snd (snd (ResolveStyle plotStyle data (dataIndex st)))) graph
            (st\<lparr>dataIndex := fst (ResolveStyle plotStyle data (dataIndex st)),
                drawingOptions := drawingOptions st @ GetDrawingOptions data,
                cout := cout st @ msgs\<rparr>))"
  using assms by (simp add: DrawSeries_def Let_def case_prod_beta)

lemma DrawSeries_ratio:
  assumes "GetType data = ''ratio''"
    and "GetDataClone_TH1 (GetUniqueName data) availableData = (Some ratio, msgs1)"
    and "GetDataClone_TH1 (GetUniqueNameDenom data) availableData = (Some temp, msgs2)"
  shows "DrawSeries ROOT plotStyle availableData controlString pid st data
     = FinishSeries data
         (DrawRatio ROOT plotStyle data
            (fst (snd (ResolveStyle plotStyle data (dataIndex st))))
            (snd (snd (ResolveStyle plotStyle data (dataIndex st)))) ratio temp
            (st\<lparr>dataIndex := fst (ResolveStyle plotStyle data (dataIndex st)),
                drawingOptions := drawingOptions st @ GetDrawingOptions data,
                cout := cout st @ msgs1 @ msgs2\<rparr>))"
  using assms by (simp add: DrawSeries_def Let_def case_prod_beta)

lemma DrawSeries_not_found:
  assumes "\<not> SeriesFound availableData data"
  shows "primitives (DrawSeries ROOT plotStyle availableData controlString pid st data)
           = primitives st
     \<and> view (DrawSeries ROOT plotStyle availableData controlString pid st data) = view st
     \<and> dataIndex (DrawSeries ROOT plotStyle availableData controlString pid st data)
         = fst (ResolveStyle plotStyle data (dataIndex st))"
  using assms
  by (auto simp: DrawSeries_def SeriesFound_def Let_def case_prod_beta
           split: option.splits prod.splits if_splits)

lemma SeriesFound_hist:
  "SeriesFound availableData data \<Longrightarrow> GetType data = ''hist'' \<Longrightarrow>
     \<exists>histo msgs. GetDataClone_TH1 (GetUniqueName data) availableData = (Some histo, msgs)"
  by (cases "GetDataClone_TH1 (GetUniqueName data) availableData") (auto simp: SeriesFound_def)

lemma SeriesFound_graph:
  "SeriesFound availableData data \<Longrightarrow> GetType data = ''graph'' \<Longrightarrow>
     \<exists>graph msgs. GetDataClone_TGraph (GetUniqueName data) availableData = (Some graph, msgs)"
  by (cases "GetDataClone_TGraph (GetUniqueName data) availableData") (auto simp: SeriesFound_def)

lemma SeriesFound_ratio:
  "SeriesFound availableData data \<Longrightarrow> GetType data = ''ratio'' \<Longrightarrow>
     (\<exists>ratio msgs. GetDataClone_TH1 (GetUniqueName data) availableData = (Some ratio, msgs))
     \<and> (\<exists>temp msgs. GetDataClone_TH1 (GetUniqueNameDenom data) availableData = (Some temp, msgs))"
  by (cases "GetDataClone_TH1 (GetUniqueName data) availableData";
      cases "GetDataClone_TH1 (GetUniqueNameDenom data) availableData")
     (auto simp: SeriesFound_def)

lemma DrawSeries_found_later:
  assumes found: "SeriesFound availableData data"
    and later: "\<not> (IsRatio False availableData data
                    \<and> fst (ResolveStyle plotStyle data (dataIndex st)) = 0)"
  shows "dataIndex (DrawSeries ROOT plotStyle availableData controlString pid st data)
           = fst (ResolveStyle plotStyle data (dataIndex st)) + 1
     \<and> (\<exists>more. primitives (DrawSeries ROOT plotStyle availableData controlString pid st data)
                 = primitives st @ more
          \<and> MarkerColors more = [fst (snd (ResolveStyle plotStyle data (dataIndex st)))]
          \<and> filter IsFunctionPrim more = [])"
proof -
  let ?idx = "fst (ResolveStyle plotStyle data (dataIndex st))"
  let ?col = "fst (snd (ResolveStyle plotStyle data (dataIndex st)))"
  let ?sty = "snd (snd (ResolveStyle plotStyle data (dataIndex st)))"
  from found consider
      (hist) "GetType data = ''hist''"
    | (ratio) "GetType data = ''ratio''"
    | (graph) "GetType data = ''graph''"
    by (auto simp: SeriesFound_def split: if_splits)
  then show ?thesis
  proof cases
    case hist
    with found obtain histo msgs where
      c: "GetDataClone_TH1 (GetUniqueName data) availableData = (Some histo, msgs)"
      using SeriesFound_hist by blast
    let ?st1 = "st\<lparr>dataIndex := ?idx, drawingOptions := drawingOptions st @ GetDrawingOptions data,
                     cout := cout st @ msgs\<rparr>"
    from DrawHist_facts[of ROOT plotStyle controlString data ?col ?sty histo ?st1]
    show ?thesis
      unfolding DrawSeries_hist[OF hist c] by (simp add: FinishSeries_facts)
  next
    case graph
    with found obtain g msgs where
      c: "GetDataClone_TGraph (GetUniqueName data) availableData = (Some g, msgs)"
      using SeriesFound_graph by blast
    let ?st1 = "st\<lparr>dataIndex := ?idx, drawingOptions := drawingOptions st @ GetDrawingOptions data,
                     cout := cout st @ msgs\<rparr>"
    from DrawGraph_facts[of data pid ?col ?sty g ?st1]
    show ?thesis
      unfolding DrawSeries_graph[OF graph c] by (simp add: FinishSeries_facts)
  next
    case ratio
    with found obtain r msgs1 where
      c1: "GetDataClone_TH1 (GetUniqueName data) availableData = (Some r, msgs1)"
      using SeriesFound_ratio by blast
    from ratio found obtain t msgs2 where
      c2: "GetDataClone_TH1 (GetUniqueNameDenom data) availableData = (Some t, msgs2)"
      using SeriesFound_ratio by blast
    let ?st1 = "st\<lparr>dataIndex := ?idx, drawingOptions := drawingOptions st @ GetDrawingOptions data,
                     cout := cout st @ msgs1 @ msgs2\<rparr>"
    from later ratio found c1 have "hInheritsTH2 r \<or> dataIndex ?st1 \<noteq> 0"
      by (auto simp: IsRatio_def)
    from DrawRatio_later[OF this, of ROOT plotStyle data ?col ?sty t]
    show ?thesis
      unfolding DrawSeries_ratio[OF ratio c1 c2] by (simp add: FinishSeries_facts)
  qed
qed

lemma DrawSeries_found_first:
  assumes ratio: "IsRatio False availableData data"
    and zero: "fst (ResolveStyle plotStyle data (dataIndex st)) = 0"
  shows "dataIndex (DrawSeries ROOT plotStyle availableData controlString pid st data) = 2
     \<and> (\<exists>dummy calls rest.
           primitives (DrawSeries ROOT plotStyle availableData controlString pid st data)
             = primitives st
               @ Drawn (TH1Obj dummy) calls ''AXIS''
               # Drawn (TF1Obj \<lparr>fName = ''line'', fFormula = ''1'',
                                 fXmin = GetXmin dummy, fXmax = GetXmax dummy\<rparr>)
                   [SetLineColor kBlack, SetLineWidth 2] ''SAME''
               # rest
           \<and> hName dummy = ''dummy''
           \<and> MarkerColors rest
              = [if GetColor data \<noteq> 0 then GetColor data else GetDefaultColor plotStyle 1])"
proof -
  let ?idx = "fst (ResolveStyle plotStyle data (dataIndex st))"
  let ?col = "fst (snd (ResolveStyle plotStyle data (dataIndex st)))"
  let ?sty = "snd (snd (ResolveStyle plotStyle data (dataIndex st)))"
  from ratio have type: "GetType data = ''ratio''" and found: "SeriesFound availableData data"
    by (simp_all add: IsRatio_def)
  from type found obtain r msgs1 where
    c1: "GetDataClone_TH1 (GetUniqueName data) availableData = (Some r, msgs1)"
    using SeriesFound_ratio by blast
  from type found obtain t msgs2 where
    c2: "GetDataClone_TH1 (GetUniqueNameDenom data) availableData = (Some t, msgs2)"
    using SeriesFound_ratio by blast
  let ?st1 = "st\<lparr>dataIndex := ?idx, drawingOptions := drawingOptions st @ GetDrawingOptions data,
                   cout := cout st @ msgs1 @ msgs2\<rparr>"
  from ratio c1 have oneD: "\<not> hInheritsTH2 r" by (simp add: IsRatio_def)
  from zero have z: "dataIndex ?st1 = 0" by simp
  from DrawRatio_first[OF oneD z, of ROOT plotStyle data ?col ?sty t]
  show ?thesis
    unfolding DrawSeries_ratio[OF type c1 c2] by (simp add: FinishSeries_facts)
qed

lemma DrawSeries_2D:
  assumes ratio: "IsRatio True availableData data"
  shows "view (DrawSeries ROOT plotStyle availableData controlString pid st data)
           = Some ([-0.5, -1, -3.610432, 100.5, 1.778151, 0.1470754], 49.5, 230)
     \<and> filter IsFunctionPrim
          (primitives (DrawSeries ROOT plotStyle availableData controlString pid st data))
         = filter IsFunctionPrim (primitives st)
     \<and> dataIndex (DrawSeries ROOT plotStyle availableData controlString pid st data)
         = fst (ResolveStyle plotStyle data (dataIndex st)) + 1"
proof -
  let ?idx = "fst (ResolveStyle plotStyle data (dataIndex st))"
  let ?col = "fst (snd (ResolveStyle plotStyle data (dataIndex st)))"
  let ?sty = "snd (snd (ResolveStyle plotStyle data (dataIndex st)))"
  from ratio have type: "GetType data = ''ratio''" and found: "SeriesFound availableData data"
    by (simp_all add: IsRatio_def)
  from type found obtain r msgs1 where
    c1: "GetDataClone_TH1 (GetUniqueName data) availableData = (Some r, msgs1)"
    using SeriesFound_ratio by blast
  from type found obtain t msgs2 where
    c2: "GetDataClone_TH1 (GetUniqueNameDenom data) availableData = (Some t, msgs2)"
    using SeriesFound_ratio by blast
  let ?st1 = "st\<lparr>dataIndex := ?idx, drawingOptions := drawingOptions st @ GetDrawingOptions data,
                   cout := cout st @ msgs1 @ msgs2\<rparr>"
  from ratio c1 have twoD: "hInheritsTH2 r" by (simp add: IsRatio_def)
  then have "hInheritsTH2 r \<or> dataIndex ?st1 \<noteq> 0" by simp
  from DrawRatio_later[OF this, of ROOT plotStyle data ?col ?sty t] twoD
  show ?thesis
    unfolding DrawSeries_ratio[OF type c1 c2] by (auto simp: FinishSeries_facts)
qed

lemma DataLoop_Nil: "DataLoop ROOT plotStyle availableData controlString pid st [] = st"
  by (simp add: DataLoop_def)

lemma DataLoop_Cons:
  "DataLoop ROOT plotStyle availableData controlString pid st (data # rest)
   = DataLoop ROOT plotStyle availableData controlString pid
       (DrawSeries ROOT plotStyle availableData controlString pid st data) rest"
  by (simp add: DataLoop_def)

lemma DataLoop_append:
  "DataLoop ROOT plotStyle availableData controlString pid st (xs @ ys)
   = DataLoop ROOT plotStyle availableData controlString pid
       (DataLoop ROOT plotStyle availableData controlString pid st xs) ys"
  by (simp add: DataLoop_def)

lemma DataLoop_skipped:
  assumes "\<And>i. 0 \<le> GetDefaultColor plotStyle i"
  shows "list_all (\<lambda>d. 0 \<le> GetColor d \<and> \<not> SeriesFound availableData d) skipped \<Longrightarrow>
     primitives (DataLoop ROOT plotStyle availableData controlString pid st skipped) = primitives st
     \<and> dataIndex (DataLoop ROOT plotStyle availableData controlString pid st skipped) = dataIndex st"
proof (induction skipped arbitrary: st)
  case Nil
  then show ?case by (simp add: DataLoop_Nil)
next
  case (Cons d skipped)
  from Cons.prems have d: "0 \<le> GetColor d" "\<not> SeriesFound availableData d"
    and rest: "list_all (\<lambda>d. 0 \<le> GetColor d \<and> \<not> SeriesFound availableData d) skipped"
    by simp_all
  from DrawSeries_not_found[OF d(2), of ROOT plotStyle controlString pid st]
    ResolveStyle_nonneg(1)[OF d(1) assms, of "dataIndex st"]
  have "primitives (DrawSeries ROOT plotStyle availableData controlString pid st d) = primitives st"
    "dataIndex (DrawSeries ROOT plotStyle availableData controlString pid st d) = dataIndex st"
    by simp_all
  with Cons.IH[OF rest, of "DrawSeries ROOT plotStyle availableData controlString pid st d"]
  show ?case by (simp add: DataLoop_Cons)
qed

lemma DataLoop_later:
  assumes def: "\<And>i. 0 \<le> GetDefaultColor plotStyle i"
  shows "list_all (\<lambda>d. 0 \<le> GetColor d) datas \<Longrightarrow> 1 \<le> dataIndex st \<Longrightarrow>
     dataIndex (DataLoop ROOT plotStyle availableData controlString pid st datas)
       = dataIndex st + int (length (filter (SeriesFound availableData) datas))
     \<and> (\<exists>more. primitives (DataLoop ROOT plotStyle availableData controlString pid st datas)
                 = primitives st @ more
          \<and> MarkerColors more
              = ExpectedColors plotStyle (dataIndex st) (filter (SeriesFound availableData) datas))"
proof (induction datas arbitrary: st)
  case Nil
  then show ?case by (simp add: DataLoop_Nil MarkerColors_Nil)
next
  case (Cons d datas)
  let ?st1 = "DrawSeries ROOT plotStyle availableData controlString pid st d"
  from Cons.prems have d: "0 \<le> GetColor d" and rest: "list_all (\<lambda>d. 0 \<le> GetColor d) datas"
    by simp_all
  note rs = ResolveStyle_nonneg[OF d def, of "dataIndex st"]
  show ?case
  proof (cases "SeriesFound availableData d")
    case False
    from DrawSeries_not_found[OF False, of ROOT plotStyle controlString pid st] rs
    have s1: "primitives ?st1 = primitives st" "dataIndex ?st1 = dataIndex st" by simp_all
    with Cons.prems have "1 \<le> dataIndex ?st1" by simp
    from Cons.IH[OF rest this] s1 False show ?thesis by (simp add: DataLoop_Cons)
  next
    case True
    from Cons.prems rs have "\<not> (IsRatio False availableData d
                    \<and> fst (ResolveStyle plotStyle d (dataIndex st)) = 0)" by simp
    from DrawSeries_found_later[OF True this, of ROOT controlString pid] rs
    obtain more1 where
      i1: "dataIndex ?st1 = dataIndex st + 1" and
      p1: "primitives ?st1 = primitives st @ more1" and
      c1: "MarkerColors more1
             = [if GetColor d \<noteq> 0 then GetColor d else GetDefaultColor plotStyle (dataIndex st)]"
      by auto
    from i1 Cons.prems have "1 \<le> dataIndex ?st1" by simp
    from Cons.IH[OF rest this] obtain more2 where
      i2: "dataIndex (DataLoop ROOT plotStyle availableData controlString pid ?st1 datas)
             = dataIndex ?st1 + int (length (filter (SeriesFound availableData) datas))" and
      p2: "primitives (DataLoop ROOT plotStyle availableData controlString pid ?st1 datas)
             = primitives ?st1 @ more2" and
      c2: "MarkerColors more2
             = ExpectedColors plotStyle (dataIndex ?st1) (filter (SeriesFound availableData) datas)"
      by auto
    show ?thesis
    proof (intro conjI exI)
      show "dataIndex (DataLoop ROOT plotStyle availableData controlString pid st (d # datas))
              = dataIndex st + int (length (filter (SeriesFound availableData) (d # datas)))"
        using i1 i2 True by (simp add: DataLoop_Cons)
      show "primitives (DataLoop ROOT plotStyle availableData controlString pid st (d # datas))
              = primitives st @ (more1 @ more2)"
        using p1 p2 by (simp add: DataLoop_Cons)
      show "MarkerColors (more1 @ more2)
              = ExpectedColors plotStyle (dataIndex st)
                  (filter (SeriesFound availableData) (d # datas))"
        using c1 c2 i1 True by (simp add: MarkerColors_append)
    qed
  qed
qed

text \<open>
  Claim C4, amended. Let no explicit or default colour be negative, and let the first
  series that is drawn in a pad be a one-dimensional ratio (the series before it are
  skipped). Then the axis of a clone named \<open>dummy\<close> and the function \<open>line\<close> with formula
  \<open>1\<close>, coloured black, are drawn first and every series after them; the colour of the
  first drawn series is resolved at index 1, that of the next drawn series at index 2, and
  so on: the index of a series is one more than the number of series drawn before it, and
  the loop ends with the index one more than the number of drawn series. A two-dimensional
  ratio sets the view of the pad to the fixed angles 49.5 and 230 and draws no function.
\<close>

theorem ratio_reference_line:
  assumes def: "\<And>i. 0 \<le> GetDefaultColor plotStyle i"
    and start: "dataIndex st = 0"
    and skipped: "list_all (\<lambda>d. 0 \<le> GetColor d \<and> \<not> SeriesFound availableData d) skipped"
    and first: "IsRatio False availableData r" "0 \<le> GetColor r"
    and rest: "list_all (\<lambda>d. 0 \<le> GetColor d) rest"
  shows "(\<exists>dummy calls more.
            primitives (DataLoop ROOT plotStyle availableData controlString pid st
                          (skipped @ r # rest))
              = primitives st
                @ Drawn (TH1Obj dummy) calls ''AXIS''
                # Drawn (TF1Obj \<lparr>fName = ''line'', fFormula = ''1'',
                                  fXmin = GetXmin dummy, fXmax = GetXmax dummy\<rparr>)
                    [SetLineColor kBlack, SetLineWidth 2] ''SAME''
                # more
            \<and> hName dummy = ''dummy''
            \<and> MarkerColors more
                = ExpectedColors plotStyle 1
                    (filter (SeriesFound availableData) (skipped @ r # rest)))
     \<and> dataIndex (DataLoop ROOT plotStyle availableData controlString pid st (skipped @ r # rest))
         = 1 + int (length (filter (SeriesFound availableData) (skipped @ r # rest)))
     \<and> (IsRatio True availableData r2 \<longrightarrow>
          view (DrawSeries ROOT plotStyle availableData controlString pid st2 r2)
            = Some ([-0.5, -1, -3.610432, 100.5, 1.778151, 0.1470754], 49.5, 230)
          \<and> filter IsFunctionPrim
               (primitives (DrawSeries ROOT plotStyle availableData controlString pid st2 r2))
              = filter IsFunctionPrim (primitives st2))"
proof -
  let ?st0 = "DataLoop ROOT plotStyle availableData controlString pid st skipped"
  let ?st1 = "DrawSeries ROOT plotStyle availableData controlString pid ?st0 r"
  let ?st2 = "DataLoop ROOT plotStyle availableData controlString pid ?st1 rest"
  have loop: "DataLoop ROOT plotStyle availableData controlString pid st (skipped @ r # rest) = ?st2"
    by (simp add: DataLoop_append DataLoop_Cons)
  from DataLoop_skipped[OF def skipped, of ROOT controlString pid st] start
  have s0: "primitives ?st0 = primitives st" "dataIndex ?st0 = 0" by simp_all
  have nf: "filter (SeriesFound availableData) skipped = []"
    using skipped by (induction skipped) simp_all
  from first have rfound: "SeriesFound availableData r" by (simp add: IsRatio_def)
  from ResolveStyle_nonneg(1)[OF first(2) def, of "dataIndex ?st0"] s0
  have z: "fst (ResolveStyle plotStyle r (dataIndex ?st0)) = 0" by simp
  from DrawSeries_found_first[OF first(1) z, of ROOT controlString pid] s0
  obtain dummy calls more1 where
    i1: "dataIndex ?st1 = 2" and
    p1: "primitives ?st1 = primitives st
               @ Drawn (TH1Obj dummy) calls ''AXIS''
               # Drawn (TF1Obj \<lparr>fName = ''line'', fFormula = ''1'',
                                 fXmin = GetXmin dummy, fXmax = GetXmax dummy\<rparr>)
                   [SetLineColor kBlack, SetLineWidth 2] ''SAME''
               # more1" and
    n1: "hName dummy = ''dummy''" and
    c1: "MarkerColors more1
              = [if GetColor r \<noteq> 0 then GetColor r else GetDefaultColor plotStyle 1]"
    by auto
  from i1 have "1 \<le> dataIndex ?st1" by simp
  from DataLoop_later[OF def rest this, of ROOT availableData controlString pid] i1
  obtain more2 where
    i2: "dataIndex ?st2 = 2 + int (length (filter (SeriesFound availableData) rest))" and
    p2: "primitives ?st2 = primitives ?st1 @ more2" and
    c2: "MarkerColors more2 = ExpectedColors plotStyle 2 (filter (SeriesFound availableData) rest)"
    by auto
  have a: "\<exists>dummy calls more.
            primitives ?st2
              = primitives st
                @ Drawn (TH1Obj dummy) calls ''AXIS''
                # Drawn (TF1Obj \<lparr>fName = ''line'', fFormula = ''1'',
                                  fXmin = GetXmin dummy, fXmax = GetXmax dummy\<rparr>)
                    [SetLineColor kBlack, SetLineWidth 2] ''SAME''
                # more
            \<and> hName dummy = ''dummy''
            \<and> MarkerColors more
                = ExpectedColors plotStyle 1
                    (filter (SeriesFound availableData) (skipped @ r # rest))"
  proof (intro exI conjI)
    show "primitives ?st2
              = primitives st
                @ Drawn (TH1Obj dummy) calls ''AXIS''
                # Drawn (TF1Obj \<lparr>fName = ''line'', fFormula = ''1'',
                                  fXmin = GetXmin dummy, fXmax = GetXmax dummy\<rparr>)
                    [SetLineColor kBlack, SetLineWidth 2] ''SAME''
                # (more1 @ more2)"
      using p1 p2 by simp
    show "hName dummy = ''dummy''" by (rule n1)
    show "MarkerColors (more1 @ more2)
            = ExpectedColors plotStyle 1
                (filter (SeriesFound availableData) (skipped @ r # rest))"
      using c1 c2 nf rfound by (simp add: MarkerColors_append)
  qed
  have c: "dataIndex ?st2
         = 1 + int (length (filter (SeriesFound availableData) (skipped @ r # rest)))"
    using i2 nf rfound by simp
  have d: "IsRatio True availableData r2 \<longrightarrow>
          view (DrawSeries ROOT plotStyle availableData controlString pid st2 r2)
            = Some ([-0.5, -1, -3.610432, 100.5, 1.778151, 0.1470754], 49.5, 230)
          \<and> filter IsFunctionPrim
               (primitives (DrawSeries ROOT plotStyle availableData controlString pid st2 r2))
              = filter IsFunctionPrim (primitives st2)"
    using DrawSeries_2D[of availableData r2 ROOT plotStyle controlString pid st2] by simp
  from a c d show ?thesis
    unfolding loop by simp
qed

lemma exStyle_colors: "0 \<le> GetDefaultColor exStyle i"
proof -
  have "i mod 3 = 0 \<or> i mod 3 = 1 \<or> i mod 3 = 2" by presburger
  then show ?thesis by (auto simp: exStyle_def)
qed

text \<open>
  The theorem at the series \<open>X\<close> (not loaded), the ratio \<open>A\<close> and the histogram \<open>C\<close>, and
  at the two-dimensional ratio \<open>A2\<close>.
\<close>

theorem ratio_reference_line_witness:
  "(\<forall>i. 0 \<le> GetDefaultColor exStyle i) \<and> dataIndex exLoopState = 0
   \<and> \<not> SeriesFound exAvail2 (exData ''hist'' ''X'' 0)
   \<and> IsRatio False exAvail2 (exData ''ratio'' ''A'' 0)
   \<and> IsRatio True exAvail2 (exData ''ratio'' ''A2'' 0)
   \<and> (\<exists>dummy calls more.
         primitives (DataLoop exRoot exStyle exAvail2 [] 1 exLoopState
            [exData ''hist'' ''X'' 0, exData ''ratio'' ''A'' 0, exData ''hist'' ''C'' 0])
           = Drawn (TH1Obj dummy) calls ''AXIS''
             # Drawn (TF1Obj \<lparr>fName = ''line'', fFormula = ''1'',
                               fXmin = GetXmin dummy, fXmax = GetXmax dummy\<rparr>)
                 [SetLineColor kBlack, SetLineWidth 2] ''SAME''
             # more
         \<and> hName dummy = ''dummy''
         \<and> MarkerColors more = [GetDefaultColor exStyle 1, GetDefaultColor exStyle 2])
   \<and> dataIndex (DataLoop exRoot exStyle exAvail2 [] 1 exLoopState
         [exData ''hist'' ''X'' 0, exData ''ratio'' ''A'' 0, exData ''hist'' ''C'' 0]) = 3
   \<and> view (DrawSeries exRoot exStyle exAvail2 [] 1 exLoopState (exData ''ratio'' ''A2'' 0))
       = Some ([-0.5, -1, -3.610432, 100.5, 1.778151, 0.1470754], 49.5, 230)
   \<and> filter IsFunctionPrim
        (primitives (DrawSeries exRoot exStyle exAvail2 [] 1 exLoopState (exData ''ratio'' ''A2'' 0)))
       = []"
proof -
  have def: "\<And>i. 0 \<le> GetDefaultColor exStyle i" by (rule exStyle_colors)
  have start: "dataIndex exLoopState = 0" by (simp add: exLoopState_def)
  have x: "\<not> SeriesFound exAvail2 (exData ''hist'' ''X'' 0)" by code_simp
  have a: "IsRatio False exAvail2 (exData ''ratio'' ''A'' 0)" by code_simp
  have a2: "IsRatio True exAvail2 (exData ''ratio'' ''A2'' 0)" by code_simp
  have c: "SeriesFound exAvail2 (exData ''hist'' ''C'' 0)" by code_simp
  have af: "SeriesFound exAvail2 (exData ''ratio'' ''A'' 0)" using a by (simp add: IsRatio_def)
  have skipped: "list_all (\<lambda>d. 0 \<le> GetColor d \<and> \<not> SeriesFound exAvail2 d) [exData ''hist'' ''X'' 0]"
    using x by (simp add: exData_def)
  have rest: "list_all (\<lambda>d. 0 \<le> GetColor d) [exData ''hist'' ''C'' 0]"
    by (simp add: exData_def)
  have col: "0 \<le> GetColor (exData ''ratio'' ''A'' 0)" by (simp add: exData_def)
  have nil: "primitives exLoopState = []" by (simp add: exLoopState_def)
  from ratio_reference_line[OF def start skipped a col rest,
      of exRoot "[]" 1 "exData ''ratio'' ''A2'' 0" exLoopState] a2 x af c nil
  have "(\<exists>dummy calls more.
         primitives (DataLoop exRoot exStyle exAvail2 [] 1 exLoopState
            [exData ''hist'' ''X'' 0, exData ''ratio'' ''A'' 0, exData ''hist'' ''C'' 0])
           = Drawn (TH1Obj dummy) calls ''AXIS''
             # Drawn (TF1Obj \<lparr>fName = ''line'', fFormula = ''1'',
                               fXmin = GetXmin dummy, fXmax = GetXmax dummy\<rparr>)
                 [SetLineColor kBlack, SetLineWidth 2] ''SAME''
             # more
         \<and> hName dummy = ''dummy''
         \<and> MarkerColors more = [GetDefaultColor exStyle 1, GetDefaultColor exStyle 2])
   \<and> dataIndex (DataLoop exRoot exStyle exAvail2 [] 1 exLoopState
         [exData ''hist'' ''X'' 0, exData ''ratio'' ''A'' 0, exData ''hist'' ''C'' 0]) = 3
   \<and> view (DrawSeries exRoot exStyle exAvail2 [] 1 exLoopState (exData ''ratio'' ''A2'' 0))
       = Some ([-0.5, -1, -3.610432, 100.5, 1.778151, 0.1470754], 49.5, 230)
   \<and> filter IsFunctionPrim
        (primitives (DrawSeries exRoot exStyle exAvail2 [] 1 exLoopState (exData ''ratio'' ''A2'' 0)))
       = []"
    by (simp add: MarkerColors_Nil exData_def)
  with def start x a a2 show ?thesis by simp
qed

text \<open>
  Claim C4 as stated fails: the ratio \<open>A\<close> is the first series drawn but the second of the
  Data sequence (position 1, after the series \<open>X\<close> that is not loaded). Its colour is the
  default colour of index 1, not of index 1 + 1, and the index at its draw call is 1.
\<close>

theorem ratio_index_after_skipped_series:
  "\<not> SeriesFound exAvail2 (exData ''hist'' ''X'' 0)
   \<and> IsRatio False exAvail2 (exData ''ratio'' ''A'' 0)
   \<and> MarkerColors (primitives (DataLoop exRoot exStyle exAvail2 [] 1 exLoopState
         [exData ''hist'' ''X'' 0, exData ''ratio'' ''A'' 0]))
       = [GetDefaultColor exStyle 1]
   \<and> GetDefaultColor exStyle 1 \<noteq> GetDefaultColor exStyle (1 + 1)
   \<and> dataIndex (DataLoop exRoot exStyle exAvail2 [] 1 exLoopState
         [exData ''hist'' ''X'' 0, exData ''ratio'' ''A'' 0]) - 1 = 1"
  by code_simp

text \<open>
  Claim C1, amended. For a drawn series at draw-order index \<open>i\<close> whose explicit colour is
  \<open>-k\<close> with \<open>1 \<le> k \<le> i\<close>, the colour resolved in lines 93-96 is the default colour at
  index \<open>i - k\<close>, and the resolution moves the running index of the pad to \<open>i - k\<close>.
  Unless the series is a one-dimensional ratio with \<open>k = i\<close>, the drawn object is given
  that colour and the iteration ends with the index \<open>i - k + 1\<close>, which is where the next
  series is resolved. A two-dimensional ratio is covered for every such \<open>k\<close>.
\<close>

theorem negative_color_shifts_index:
  assumes found: "SeriesFound availableData data"
    and neg: "GetColor data = - k" "1 \<le> k" "k \<le> dataIndex st"
  shows "fst (ResolveStyle plotStyle data (dataIndex st)) = dataIndex st - k
     \<and> fst (snd (ResolveStyle plotStyle data (dataIndex st)))
         = GetDefaultColor plotStyle (dataIndex st - k)
     \<and> (\<not> (IsRatio False availableData data \<and> k = dataIndex st) \<longrightarrow>
          MarkerColors
              (primitives (DrawSeries ROOT plotStyle availableData controlString pid st data))
            = MarkerColors (primitives st) @ [GetDefaultColor plotStyle (dataIndex st - k)]
          \<and> dataIndex (DrawSeries ROOT plotStyle availableData controlString pid st data)
              = dataIndex st - k + 1)"
proof -
  note rs = ResolveStyle_negative[OF neg(1,2), of plotStyle "dataIndex st"]
  have "MarkerColors
              (primitives (DrawSeries ROOT plotStyle availableData controlString pid st data))
            = MarkerColors (primitives st) @ [GetDefaultColor plotStyle (dataIndex st - k)]
          \<and> dataIndex (DrawSeries ROOT plotStyle availableData controlString pid st data)
              = dataIndex st - k + 1"
    if excl: "\<not> (IsRatio False availableData data \<and> k = dataIndex st)"
  proof -
    from excl rs(1) have "\<not> (IsRatio False availableData data
                    \<and> fst (ResolveStyle plotStyle data (dataIndex st)) = 0)"
      by auto
    from DrawSeries_found_later[OF found this, of ROOT controlString pid] rs
    show ?thesis by (auto simp: MarkerColors_append)
  qed
  with rs show ?thesis by blast
qed

text \<open>
  The theorem at the two-dimensional ratio \<open>A2\<close> with colour \<open>-1\<close>, met at index 1: the
  index is moved to 0, the ratio is drawn with the default colour of index 0, and the
  iteration ends with the index 1.
\<close>

theorem negative_color_shifts_index_witness:
  "SeriesFound exAvail2 (exData ''ratio'' ''A2'' (-1))
   \<and> GetColor (exData ''ratio'' ''A2'' (-1)) = - 1 \<and> (1::int) \<le> 1
   \<and> 1 \<le> dataIndex (exLoopState\<lparr>dataIndex := 1\<rparr>)
   \<and> \<not> IsRatio False exAvail2 (exData ''ratio'' ''A2'' (-1))
   \<and> fst (ResolveStyle exStyle (exData ''ratio'' ''A2'' (-1)) 1) = 0
   \<and> fst (snd (ResolveStyle exStyle (exData ''ratio'' ''A2'' (-1)) 1)) = GetDefaultColor exStyle 0
   \<and> MarkerColors (primitives (DrawSeries exRoot exStyle exAvail2 [] 1
                       (exLoopState\<lparr>dataIndex := 1\<rparr>) (exData ''ratio'' ''A2'' (-1))))
       = [GetDefaultColor exStyle 0]
   \<and> dataIndex (DrawSeries exRoot exStyle exAvail2 [] 1
                       (exLoopState\<lparr>dataIndex := 1\<rparr>) (exData ''ratio'' ''A2'' (-1))) = 1"
proof -
  have f: "SeriesFound exAvail2 (exData ''ratio'' ''A2'' (-1))" by code_simp
  have n: "GetColor (exData ''ratio'' ''A2'' (-1)) = - 1" by (simp add: exData_def)
  have k: "(1::int) \<le> 1" by simp
  have i: "1 \<le> dataIndex (exLoopState\<lparr>dataIndex := 1\<rparr>)" by simp
  have r: "\<not> IsRatio False exAvail2 (exData ''ratio'' ''A2'' (-1))" by code_simp
  from negative_color_shifts_index[OF f n k i, of exStyle exRoot "[]" 1] r
  have "fst (ResolveStyle exStyle (exData ''ratio'' ''A2'' (-1)) 1) = 0
   \<and> fst (snd (ResolveStyle exStyle (exData ''ratio'' ''A2'' (-1)) 1)) = GetDefaultColor exStyle 0
   \<and> MarkerColors (primitives (DrawSeries exRoot exStyle exAvail2 [] 1
                       (exLoopState\<lparr>dataIndex := 1\<rparr>) (exData ''ratio'' ''A2'' (-1))))
       = [GetDefaultColor exStyle 0]
   \<and> dataIndex (DrawSeries exRoot exStyle exAvail2 [] 1
                       (exLoopState\<lparr>dataIndex := 1\<rparr>) (exData ''ratio'' ''A2'' (-1))) = 1"
    by (simp add: exLoopState_def MarkerColors_Nil)
  with f n k i r show ?thesis by simp
qed

text \<open>
  Claim C1 as stated fails in both halves. The series' own draw position: after the
  histogram \<open>A\<close>, the graph \<open>G\<close> is drawn with \<open>EP SAME\<close>, but with the colour \<open>-1\<close> the
  check of line 252 reads the index 0 and the graph is drawn with \<open>EP SAME AP\<close>, the option
  of the first series of a pad. The subsequent series: the graph with colour \<open>-1\<close> leaves
  the index at 1 instead of 2, so the histogram \<open>C\<close> after it gets the default colour of
  index 1, not that of index 2.
\<close>

theorem negative_color_moves_index:
  "GetColor (exData ''graph'' ''G'' (-1)) = - 1
   \<and> DrawOptions (primitives (DataLoop exRoot exStyle exAvail [] 1 exLoopState
        [exData ''hist'' ''A'' 0, exData ''graph'' ''G'' 0]))
       = [[], ''EP SAME'']
   \<and> DrawOptions (primitives (DataLoop exRoot exStyle exAvail [] 1 exLoopState
        [exData ''hist'' ''A'' 0, exData ''graph'' ''G'' (-1)]))
       = [[], ''EP SAME AP'']
   \<and> dataIndex (DataLoop exRoot exStyle exAvail [] 1 exLoopState
        [exData ''hist'' ''A'' 0, exData ''graph'' ''G'' 0]) = 2
   \<and> dataIndex (DataLoop exRoot exStyle exAvail [] 1 exLoopState
        [exData ''hist'' ''A'' 0, exData ''graph'' ''G'' (-1)]) = 1
   \<and> MarkerColors (primitives (DataLoop exRoot exStyle exAvail [] 1 exLoopState
        [exData ''hist'' ''A'' 0, exData ''graph'' ''G'' (-1), exData ''hist'' ''C'' 0]))
       = [GetDefaultColor exStyle 0, GetDefaultColor exStyle 0, GetDefaultColor exStyle 1]
   \<and> GetDefaultColor exStyle 1 \<noteq> GetDefaultColor exStyle 2"
  by code_simp

section \<open>The lists handed to MakeLegend\<close>

text \<open>
  The data loop adds to \<^verbatim>\<open>lables\<close>, \<^verbatim>\<open>legendEntries\<close> and \<^verbatim>\<open>errorStyles\<close> together, so
  \<^verbatim>\<open>MakeLegend\<close> is called with one label and one recorded option for every entry.
\<close>

lemma Draw_keeps_labels:
  "lables (DrawHist ROOT plotStyle controlString data color style histo st) = lables st
   \<and> legendEntries (DrawHist ROOT plotStyle controlString data color style histo st)
       = legendEntries st
   \<and> errorStyles (DrawHist ROOT plotStyle controlString data color style histo st)
       = errorStyles st"
  "lables (DrawRatio ROOT plotStyle data color style ratio temp st) = lables st
   \<and> legendEntries (DrawRatio ROOT plotStyle data color style ratio temp st) = legendEntries st
   \<and> errorStyles (DrawRatio ROOT plotStyle data color style ratio temp st) = errorStyles st"
  "lables (DrawGraph data pid color style graph st) = lables st
   \<and> legendEntries (DrawGraph data pid color style graph st) = legendEntries st
   \<and> errorStyles (DrawGraph data pid color style graph st) = errorStyles st"
  by (simp_all add: DrawHist_def DrawRatio_def DrawGraph_def Let_def)

lemma FinishSeries_labels:
  "length (lables st) = length (legendEntries st) \<Longrightarrow>
   length (lables st) = length (errorStyles st) \<Longrightarrow>
     length (lables (FinishSeries data st)) = length (legendEntries (FinishSeries data st))
     \<and> length (lables (FinishSeries data st)) = length (errorStyles (FinishSeries data st))"
  by (simp add: FinishSeries_def Let_def)

lemma DrawSeries_labels:
  assumes "length (lables st) = length (legendEntries st)"
    and "length (lables st) = length (errorStyles st)"
  shows "length (lables (DrawSeries ROOT plotStyle availableData controlString pid st data))
           = length (legendEntries (DrawSeries ROOT plotStyle availableData controlString pid st data))
     \<and> length (lables (DrawSeries ROOT plotStyle availableData controlString pid st data))
           = length (errorStyles (DrawSeries ROOT plotStyle availableData controlString pid st data))"
proof (cases "SeriesFound availableData data")
  case False
  then have "lables (DrawSeries ROOT plotStyle availableData controlString pid st data) = lables st
     \<and> legendEntries (DrawSeries ROOT plotStyle availableData controlString pid st data)
         = legendEntries st
     \<and> errorStyles (DrawSeries ROOT plotStyle availableData controlString pid st data)
         = errorStyles st"
    by (auto simp: DrawSeries_def SeriesFound_def Let_def case_prod_beta
           split: option.splits prod.splits if_splits)
  with assms show ?thesis by simp
next
  case True
  then consider
      (hist) "GetType data = ''hist''"
    | (ratio) "GetType data = ''ratio''"
    | (graph) "GetType data = ''graph''"
    by (auto simp: SeriesFound_def split: if_splits)
  then show ?thesis
  proof cases
    case hist
    with True obtain histo msgs where
      c: "GetDataClone_TH1 (GetUniqueName data) availableData = (Some histo, msgs)"
      using SeriesFound_hist by blast
    show ?thesis
      unfolding DrawSeries_hist[OF hist c]
      by (rule FinishSeries_labels) (use assms in \<open>simp_all add: Draw_keeps_labels\<close>)
  next
    case graph
    with True obtain g msgs where
      c: "GetDataClone_TGraph (GetUniqueName data) availableData = (Some g, msgs)"
      using SeriesFound_graph by blast
    show ?thesis
      unfolding DrawSeries_graph[OF graph c]
      by (rule FinishSeries_labels) (use assms in \<open>simp_all add: Draw_keeps_labels\<close>)
  next
    case ratio
    with True obtain r msgs1 where
      c1: "GetDataClone_TH1 (GetUniqueName data) availableData = (Some r, msgs1)"
      using SeriesFound_ratio by blast
    from ratio True obtain t msgs2 where
      c2: "GetDataClone_TH1 (GetUniqueNameDenom data) availableData = (Some t, msgs2)"
      using SeriesFound_ratio by blast
    show ?thesis
      unfolding DrawSeries_ratio[OF ratio c1 c2]
      by (rule FinishSeries_labels) (use assms in \<open>simp_all add: Draw_keeps_labels\<close>)
  qed
qed

lemma DataLoop_labels:
  "length (lables st) = length (legendEntries st) \<Longrightarrow>
   length (lables st) = length (errorStyles st) \<Longrightarrow>
     length (lables (DataLoop ROOT plotStyle availableData controlString pid st datas))
       = length (legendEntries (DataLoop ROOT plotStyle availableData controlString pid st datas))
     \<and> length (lables (DataLoop ROOT plotStyle availableData controlString pid st datas))
       = length (errorStyles (DataLoop ROOT plotStyle availableData controlString pid st datas))"
proof (induction datas arbitrary: st)
  case Nil
  then show ?case by (simp add: DataLoop_Nil)
next
  case (Cons d datas)
  from DrawSeries_labels[OF Cons.prems, of ROOT plotStyle availableData controlString pid d]
  have "length (lables (DrawSeries ROOT plotStyle availableData controlString pid st d))
           = length (legendEntries (DrawSeries ROOT plotStyle availableData controlString pid st d))"
    "length (lables (DrawSeries ROOT plotStyle availableData controlString pid st d))
           = length (errorStyles (DrawSeries ROOT plotStyle availableData controlString pid st d))"
    by simp_all
  from Cons.IH[OF this] show ?case by (simp add: DataLoop_Cons)
qed

end
